theory Spec2Isabelle
  imports Main "HOL-Library.Word"
begin

section \<open>Solidity values, errors and checked arithmetic\<close>

text \<open>
  The contracts are compiled with \<^verbatim>\<open>pragma solidity ^0.8.20\<close>: \<^verbatim>\<open>uint256\<close> is a 256-bit
  word, and \<open>+\<close>, \<open>-\<close>, \<open>*\<close>, \<open>++\<close> and unary minus revert with \<^verbatim>\<open>Panic(0x11)\<close> instead
  of wrapping around. An \<^verbatim>\<open>int256\<close> is the same 256 bits read in two's complement
  (\<open>sint\<close>); the explicit conversion \<^verbatim>\<open>uint256(x)\<close> keeps the bits.
\<close>

type_synonym uint256 = "256 word"
type_synonym int256 = "256 word"
type_synonym uint8 = "8 word"
type_synonym address = "160 word"
type_synonym bytes32 = "256 word"

text \<open>
  A failed \<^verbatim>\<open>require(c, msg)\<close> is \<open>Revert msg\<close>, with the message of the source. The
  modifiers \<^verbatim>\<open>onlyRole\<close> and \<^verbatim>\<open>whenNotPaused\<close> of the OpenZeppelin base contracts revert
  with the errors named here after the custom errors of the library; the refusal of
  \<^verbatim>\<open>onlyRole\<close> is \<open>AccessControlUnauthorizedAccount\<close> whatever its payload, which is a
  message string in the older library. A reverted call leaves the storage as it was: the
  operations below return either an error or the result with the new storage.

  The specification names the failures by kind. Its \<open>AlreadyRegistered\<close> (\<open>AlreadyExists\<close>)
  is the message ``Entity exists'', \<open>InvalidInput\<close> of a registration is
  ``No modules specified'', \<open>InvalidState\<close> is ``Invalid status'', \<open>AlreadyCompleted\<close> is
  ``Already completed'', \<open>InsufficientPayment\<close> is ``Insufficient payment'', \<open>NotActive\<close> is
  ``Policy not active'', \<open>Expired\<close> is ``Policy expired'', \<open>NotOwner\<close> of a credit is
  ``Not credit owner'' and \<open>AlreadyRetired\<close> is ``Already retired''.
\<close>

datatype error =
    Revert string
  | Panic_Arithmetic
  | AccessControlUnauthorizedAccount
  | EnforcedPause

datatype role = DEFAULT_ADMIN_ROLE | ADMIN_ROLE | VERIFIER_ROLE | MODULE_ROLE | PROVIDER_ROLE

definition checked_add :: "uint256 \<Rightarrow> uint256 \<Rightarrow> error + uint256" where
  "checked_add a b = (if unat a + unat b < 2 ^ 256 then Inr (a + b) else Inl Panic_Arithmetic)"

definition checked_sub :: "uint256 \<Rightarrow> uint256 \<Rightarrow> error + uint256" where
  "checked_sub a b = (if unat b \<le> unat a then Inr (a - b) else Inl Panic_Arithmetic)"

definition checked_mul :: "uint256 \<Rightarrow> uint256 \<Rightarrow> error + uint256" where
  "checked_mul a b = (if unat a * unat b < 2 ^ 256 then Inr (a * b) else Inl Panic_Arithmetic)"

definition checked_neg :: "int256 \<Rightarrow> error + int256" where
  "checked_neg x = (if sint x = - (2 ^ 255) then Inl Panic_Arithmetic else Inr (- x))"

text \<open>
  The identifiers are \<^verbatim>\<open>keccak256(abi.encodePacked(...))\<close> of some arguments. The hash
  function is a parameter \<open>H\<close> of every operation that makes an identifier; its argument
  is the list of the packed values, in the order of the source.
\<close>

datatype abi_val = Addr address | Str string | U256 uint256 | B32 bytes32

type_synonym keccak = "abi_val list \<Rightarrow> bytes32"

text \<open>The storage after a call that returns a value: a revert changes nothing.\<close>

definition storage_after :: "'s \<Rightarrow> error + ('a \<times> 's) \<Rightarrow> 's" where
  "storage_after s r = (case r of Inl _ \<Rightarrow> s | Inr (_, s') \<Rightarrow> s')"

section \<open>AgricultureContract (src/hedera/src/contracts/Agriculture.sol)\<close>

text \<open>
  The fields of a struct keep their names behind a prefix for the struct (\<open>hv_\<close>, \<open>sc_\<close>,
  \<open>ci_\<close>, and so on), since several structs have fields of the same name; the state
  variables of a contract are the fields of its storage record.
\<close>

record Harvest =
  hv_harvestId :: bytes32
  hv_farmer :: address
  hv_cropType :: string
  hv_quantity :: uint256
  hv_qualityGrade :: uint8
  hv_timestamp :: uint256
  hv_verified :: bool

record SalesContract =
  sc_contractId :: bytes32
  sc_farmer :: address
  sc_buyer :: address
  sc_harvestId :: bytes32
  sc_quantity :: uint256
  sc_pricePerUnit :: uint256
  sc_totalAmount :: uint256
  sc_escrowAmount :: uint256
  sc_deliveryConfirmed :: bool
  sc_qualityVerified :: bool
  sc_completed :: bool
  sc_createdAt :: uint256

record CropInsurance =
  ci_policyId :: bytes32
  ci_farmer :: address
  ci_cropType :: string
  ci_insuredValue :: uint256
  ci_premium :: uint256
  ci_coveragePercentage :: uint256
  ci_active :: bool
  ci_startDate :: uint256
  ci_endDate :: uint256

text \<open>
  A Solidity mapping has a value at every key, the zero value where nothing was stored:
  the mappings are total functions. \<open>ag_balance\<close> is the native currency held by the
  contract (what \<^verbatim>\<open>payable\<close> functions received, less what was sent out); the ledger
  bounds the total supply, so it is a natural number.
\<close>

record agri_state =
  ag_orchestrator :: address
  ag_paymentToken :: address
  ag_harvests :: "bytes32 \<Rightarrow> Harvest"
  ag_salesContracts :: "bytes32 \<Rightarrow> SalesContract"
  ag_insurancePolicies :: "bytes32 \<Rightarrow> CropInsurance"
  ag_farmerHarvests :: "address \<Rightarrow> bytes32 list"
  ag_roles :: "role \<Rightarrow> address \<Rightarrow> bool"
  ag_balance :: nat

definition zero_Harvest :: Harvest where
  "zero_Harvest = \<lparr>hv_harvestId = 0, hv_farmer = 0, hv_cropType = [], hv_quantity = 0,
     hv_qualityGrade = 0, hv_timestamp = 0, hv_verified = False\<rparr>"

definition zero_SalesContract :: SalesContract where
  "zero_SalesContract = \<lparr>sc_contractId = 0, sc_farmer = 0, sc_buyer = 0, sc_harvestId = 0,
     sc_quantity = 0, sc_pricePerUnit = 0, sc_totalAmount = 0, sc_escrowAmount = 0,
     sc_deliveryConfirmed = False, sc_qualityVerified = False, sc_completed = False,
     sc_createdAt = 0\<rparr>"

definition zero_CropInsurance :: CropInsurance where
  "zero_CropInsurance = \<lparr>ci_policyId = 0, ci_farmer = 0, ci_cropType = [], ci_insuredValue = 0,
     ci_premium = 0, ci_coveragePercentage = 0, ci_active = False, ci_startDate = 0,
     ci_endDate = 0\<rparr>"

text \<open>The storage after the constructor, run by \<open>deployer\<close>.\<close>

definition agri_init :: "address \<Rightarrow> address \<Rightarrow> address \<Rightarrow> agri_state" where
  "agri_init deployer orch token = \<lparr>ag_orchestrator = orch, ag_paymentToken = token,
     ag_harvests = (\<lambda>_. zero_Harvest), ag_salesContracts = (\<lambda>_. zero_SalesContract),
     ag_insurancePolicies = (\<lambda>_. zero_CropInsurance), ag_farmerHarvests = (\<lambda>_. []),
     ag_roles = (\<lambda>r a. (r = DEFAULT_ADMIN_ROLE \<or> r = ADMIN_ROLE) \<and> a = deployer),
     ag_balance = 0\<rparr>"

text \<open>
  \<^verbatim>\<open>to.call{value: v}("")\<close>: the call fails when the contract holds less than \<open>v\<close> or when
  the recipient's code rejects the payment. What the recipient answers is the parameter
  \<open>accepts\<close>; it is given the storage as it is when the call is made, which is what the
  recipient could observe by calling back. The calls are top-level transactions, so the
  \<^verbatim>\<open>nonReentrant\<close> guard is open when they start; events are write-only and not modelled.
\<close>

type_synonym agri_recipient = "agri_state \<Rightarrow> address \<Rightarrow> uint256 \<Rightarrow> bool"

definition call_value :: "agri_recipient \<Rightarrow> agri_state \<Rightarrow> address \<Rightarrow> uint256 \<Rightarrow> agri_state option" where
  "call_value accepts s to v =
     (if unat v \<le> ag_balance s \<and> accepts s to v
      then Some (s\<lparr>ag_balance := ag_balance s - unat v\<rparr>) else None)"

definition recordHarvest ::
  "keccak \<Rightarrow> agri_state \<Rightarrow> address \<Rightarrow> uint256 \<Rightarrow> string \<Rightarrow> uint256 \<Rightarrow> uint8
     \<Rightarrow> error + (bytes32 \<times> agri_state)" where
  "recordHarvest H s sender now cropType quantity qualityGrade =
     (if \<not> 0 < quantity then Inl (Revert ''Invalid quantity'')
      else if \<not> (1 \<le> qualityGrade \<and> qualityGrade \<le> 5) then Inl (Revert ''Invalid grade'')
      else
        let harvestId = H [Addr sender, Str cropType, U256 quantity, U256 now] in
        Inr (harvestId,
          s\<lparr>ag_harvests := (ag_harvests s)(harvestId :=
               \<lparr>hv_harvestId = harvestId, hv_farmer = sender, hv_cropType = cropType,
                hv_quantity = quantity, hv_qualityGrade = qualityGrade, hv_timestamp = now,
                hv_verified = False\<rparr>),
            ag_farmerHarvests := (ag_farmerHarvests s)(sender :=
               ag_farmerHarvests s sender @ [harvestId])\<rparr>))"

definition createSalesContract ::
  "keccak \<Rightarrow> agri_state \<Rightarrow> address \<Rightarrow> uint256 \<Rightarrow> address \<Rightarrow> bytes32 \<Rightarrow> uint256 \<Rightarrow> uint256
     \<Rightarrow> error + (bytes32 \<times> agri_state)" where
  "createSalesContract H s sender now buyer harvestId quantity pricePerUnit =
     (let harvest = ag_harvests s harvestId in
      if hv_farmer harvest \<noteq> sender then Inl (Revert ''Not harvest owner'')
      else if \<not> quantity \<le> hv_quantity harvest then Inl (Revert ''Insufficient quantity'')
      else if buyer = 0 then Inl (Revert ''Invalid buyer'')
      else case checked_mul quantity pricePerUnit of
        Inl e \<Rightarrow> Inl e
      | Inr totalAmount \<Rightarrow>
          let contractId = H [Addr sender, Addr buyer, B32 harvestId, U256 now] in
          Inr (contractId,
            s\<lparr>ag_salesContracts := (ag_salesContracts s)(contractId :=
               \<lparr>sc_contractId = contractId, sc_farmer = sender, sc_buyer = buyer,
                sc_harvestId = harvestId, sc_quantity = quantity,
                sc_pricePerUnit = pricePerUnit, sc_totalAmount = totalAmount,
                sc_escrowAmount = 0, sc_deliveryConfirmed = False,
                sc_qualityVerified = False, sc_completed = False, sc_createdAt = now\<rparr>)\<rparr>))"

text \<open>\<open>value\<close> is \<^verbatim>\<open>msg.value\<close>: a \<^verbatim>\<open>payable\<close> function that returns keeps it.\<close>

definition depositEscrow ::
  "agri_state \<Rightarrow> address \<Rightarrow> uint256 \<Rightarrow> bytes32 \<Rightarrow> error + agri_state" where
  "depositEscrow s sender value contractId =
     (let contract = ag_salesContracts s contractId in
      if sc_buyer contract \<noteq> sender then Inl (Revert ''Not buyer'')
      else if sc_completed contract then Inl (Revert ''Already completed'')
      else if \<not> sc_totalAmount contract \<le> value then Inl (Revert ''Insufficient payment'')
      else Inr (s\<lparr>ag_balance := ag_balance s + unat value,
                  ag_salesContracts := (ag_salesContracts s)(contractId :=
                    contract\<lparr>sc_escrowAmount := value\<rparr>)\<rparr>))"

definition confirmDeliveryAndQuality ::
  "agri_state \<Rightarrow> address \<Rightarrow> bytes32 \<Rightarrow> error + agri_state" where
  "confirmDeliveryAndQuality s sender contractId =
     (if \<not> ag_roles s VERIFIER_ROLE sender then Inl AccessControlUnauthorizedAccount
      else
        let contract = ag_salesContracts s contractId in
        if sc_completed contract then Inl (Revert ''Already completed'')
        else Inr (s\<lparr>ag_salesContracts := (ag_salesContracts s)(contractId :=
               contract\<lparr>sc_deliveryConfirmed := True, sc_qualityVerified := True\<rparr>)\<rparr>))"

text \<open>
  \<open>processPayment\<close> stores \<open>completed = true\<close> and then makes the call to the farmer: the
  storage handed to \<open>call_value\<close> is the one with the flag set.
\<close>

definition processPayment ::
  "agri_recipient \<Rightarrow> agri_state \<Rightarrow> address \<Rightarrow> bytes32 \<Rightarrow> error + (uint256 \<times> agri_state)" where
  "processPayment accepts s sender contractId =
     (let contract = ag_salesContracts s contractId in
      if \<not> (sender = sc_buyer contract \<or> ag_roles s ADMIN_ROLE sender)
        then Inl (Revert ''Unauthorized'')
      else if \<not> sc_deliveryConfirmed contract then Inl (Revert ''Delivery not confirmed'')
      else if \<not> sc_qualityVerified contract then Inl (Revert ''Quality not verified'')
      else if sc_completed contract then Inl (Revert ''Already completed'')
      else if \<not> 0 < sc_escrowAmount contract then Inl (Revert ''No escrow'')
      else case checked_mul (sc_escrowAmount contract) 15 of
        Inl e \<Rightarrow> Inl e
      | Inr product \<Rightarrow>
          let platformFee = product div 10000 in
          (case checked_sub (sc_escrowAmount contract) platformFee of
            Inl e \<Rightarrow> Inl e
          | Inr farmerPayment \<Rightarrow>
              let s1 = s\<lparr>ag_salesContracts := (ag_salesContracts s)(contractId :=
                         contract\<lparr>sc_completed := True\<rparr>)\<rparr> in
              (case call_value accepts s1 (sc_farmer contract) farmerPayment of
                None \<Rightarrow> Inl (Revert ''Payment failed'')
              | Some s2 \<Rightarrow> Inr (farmerPayment, s2))))"

definition createInsurancePolicy ::
  "keccak \<Rightarrow> agri_state \<Rightarrow> address \<Rightarrow> uint256 \<Rightarrow> uint256 \<Rightarrow> string \<Rightarrow> uint256 \<Rightarrow> uint256
     \<Rightarrow> uint256 \<Rightarrow> error + (bytes32 \<times> agri_state)" where
  "createInsurancePolicy H s sender value now cropType insuredValue coveragePercentage
       durationDays =
     (if \<not> 0 < insuredValue then Inl (Revert ''Invalid insured value'')
      else if \<not> (0 < coveragePercentage \<and> coveragePercentage \<le> 100)
        then Inl (Revert ''Invalid coverage'')
      else case checked_mul insuredValue 4 of
        Inl e \<Rightarrow> Inl e
      | Inr product \<Rightarrow>
          let premium = product div 100 in
          if \<not> premium \<le> value then Inl (Revert ''Insufficient premium'')
          else
            let policyId = H [Addr sender, Str cropType, U256 now] in
            (case checked_mul durationDays 86400 of
              Inl e \<Rightarrow> Inl e
            | Inr duration \<Rightarrow>
                (case checked_add now duration of
                  Inl e \<Rightarrow> Inl e
                | Inr endDate \<Rightarrow>
                    Inr (policyId,
                      s\<lparr>ag_balance := ag_balance s + unat value,
                        ag_insurancePolicies := (ag_insurancePolicies s)(policyId :=
                          \<lparr>ci_policyId = policyId, ci_farmer = sender, ci_cropType = cropType,
                           ci_insuredValue = insuredValue, ci_premium = premium,
                           ci_coveragePercentage = coveragePercentage, ci_active = True,
                           ci_startDate = now, ci_endDate = endDate\<rparr>)\<rparr>))))"

definition processInsurancePayout ::
  "agri_recipient \<Rightarrow> agri_state \<Rightarrow> address \<Rightarrow> uint256 \<Rightarrow> bytes32 \<Rightarrow> uint256
     \<Rightarrow> error + agri_state" where
  "processInsurancePayout accepts s sender now policyId payoutPercentage =
     (if \<not> ag_roles s VERIFIER_ROLE sender then Inl AccessControlUnauthorizedAccount
      else
        let policy = ag_insurancePolicies s policyId in
        if \<not> ci_active policy then Inl (Revert ''Policy not active'')
        else if \<not> now \<le> ci_endDate policy then Inl (Revert ''Policy expired'')
        else if \<not> payoutPercentage \<le> 100 then Inl (Revert ''Invalid payout'')
        else case checked_mul (ci_insuredValue policy) (ci_coveragePercentage policy) of
          Inl e \<Rightarrow> Inl e
        | Inr p1 \<Rightarrow>
            (case checked_mul p1 payoutPercentage of
              Inl e \<Rightarrow> Inl e
            | Inr p2 \<Rightarrow>
                let payoutAmount = p2 div 10000;
                    s1 = s\<lparr>ag_insurancePolicies := (ag_insurancePolicies s)(policyId :=
                           policy\<lparr>ci_active := False\<rparr>)\<rparr> in
                (case call_value accepts s1 (ci_farmer policy) payoutAmount of
                  None \<Rightarrow> Inl (Revert ''Payout failed'')
                | Some s2 \<Rightarrow> Inr s2)))"

text \<open>
  Sequences of calls to the contract. A call that reverts leaves the storage unchanged.
  Each payment carries the answer of its recipient. \<open>SetRoles\<close> stands for the role
  administration inherited from \<^verbatim>\<open>AccessControl\<close> (grant, revoke, renounce), taken as any
  change of the role table.
\<close>

datatype agri_call =
    RecordHarvest address uint256 string uint256 uint8
  | CreateSalesContract address uint256 address bytes32 uint256 uint256
  | DepositEscrow address uint256 bytes32
  | ConfirmDeliveryAndQuality address bytes32
  | ProcessPayment agri_recipient address bytes32
  | CreateInsurancePolicy address uint256 uint256 string uint256 uint256 uint256
  | ProcessInsurancePayout agri_recipient address uint256 bytes32 uint256
  | SetRoles "role \<Rightarrow> address \<Rightarrow> bool"

fun agri_step :: "keccak \<Rightarrow> agri_state \<Rightarrow> agri_call \<Rightarrow> agri_state" where
  "agri_step H s (RecordHarvest sender now cropType quantity qualityGrade) =
     storage_after s (recordHarvest H s sender now cropType quantity qualityGrade)"
| "agri_step H s (CreateSalesContract sender now buyer harvestId quantity pricePerUnit) =
     storage_after s (createSalesContract H s sender now buyer harvestId quantity pricePerUnit)"
| "agri_step H s (DepositEscrow sender value contractId) =
     (case depositEscrow s sender value contractId of Inl _ \<Rightarrow> s | Inr s' \<Rightarrow> s')"
| "agri_step H s (ConfirmDeliveryAndQuality sender contractId) =
     (case confirmDeliveryAndQuality s sender contractId of Inl _ \<Rightarrow> s | Inr s' \<Rightarrow> s')"
| "agri_step H s (ProcessPayment accepts sender contractId) =
     storage_after s (processPayment accepts s sender contractId)"
| "agri_step H s (CreateInsurancePolicy sender value now cropType insuredValue
       coveragePercentage durationDays) =
     storage_after s (createInsurancePolicy H s sender value now cropType insuredValue
       coveragePercentage durationDays)"
| "agri_step H s (ProcessInsurancePayout accepts sender now policyId payoutPercentage) =
     (case processInsurancePayout accepts s sender now policyId payoutPercentage of
        Inl _ \<Rightarrow> s | Inr s' \<Rightarrow> s')"
| "agri_step H s (SetRoles roles) = s\<lparr>ag_roles := roles\<rparr>"

definition agri_run :: "keccak \<Rightarrow> agri_state \<Rightarrow> agri_call list \<Rightarrow> agri_state" where
  "agri_run H s calls = foldl (agri_step H) s calls"

text \<open>
  A call of \<open>createSalesContract\<close> whose identifier is \<open>contractId\<close>: if it returns, it
  stores a new contract, not completed, in the place of the one kept there.
\<close>

fun recreates :: "keccak \<Rightarrow> bytes32 \<Rightarrow> agri_call \<Rightarrow> bool" where
  "recreates H contractId (CreateSalesContract sender now buyer harvestId quantity pricePerUnit) =
     (H [Addr sender, Addr buyer, B32 harvestId, U256 now] = contractId)"
| "recreates H contractId _ = False"

section \<open>HederaOpsOrchestrator (src/hedera/workflow.ts, lines 502 to 779)\<close>

datatype EntityType = FARMER | PATIENT | BUYER | FACILITY | PRODUCT | ORGANIZATION | GOVERNMENT

datatype TransactionStatus = PENDING | PROCESSING | COMPLETED | FAILED | CANCELLED

record Entity =
  en_wallet :: address
  en_entityType :: EntityType
  en_activeModules :: "string list"
  en_reputationScore :: uint256
  en_verified :: bool
  en_created :: uint256
  en_totalTransactions :: uint256

record CrossModuleTransaction =
  tx_txId :: bytes32
  tx_initiator :: address
  tx_involvedModules :: "string list"
  tx_status :: TransactionStatus
  tx_timestamp :: uint256
  tx_value :: uint256

record orch_state =
  or_healthcareModule :: address
  or_agricultureModule :: address
  or_supplyChainModule :: address
  or_sustainabilityModule :: address
  or_entities :: "address \<Rightarrow> Entity"
  or_transactions :: "bytes32 \<Rightarrow> CrossModuleTransaction"
  or_roles :: "role \<Rightarrow> address \<Rightarrow> bool"
  or_paused :: bool

text \<open>The zero value of an enum is its first member.\<close>

definition zero_Entity :: Entity where
  "zero_Entity = \<lparr>en_wallet = 0, en_entityType = FARMER, en_activeModules = [],
     en_reputationScore = 0, en_verified = False, en_created = 0, en_totalTransactions = 0\<rparr>"

definition zero_CrossModuleTransaction :: CrossModuleTransaction where
  "zero_CrossModuleTransaction = \<lparr>tx_txId = 0, tx_initiator = 0, tx_involvedModules = [],
     tx_status = PENDING, tx_timestamp = 0, tx_value = 0\<rparr>"

definition orch_init :: "address \<Rightarrow> orch_state" where
  "orch_init deployer = \<lparr>or_healthcareModule = 0, or_agricultureModule = 0,
     or_supplyChainModule = 0, or_sustainabilityModule = 0,
     or_entities = (\<lambda>_. zero_Entity), or_transactions = (\<lambda>_. zero_CrossModuleTransaction),
     or_roles = (\<lambda>r a. (r = DEFAULT_ADMIN_ROLE \<or> r = ADMIN_ROLE) \<and> a = deployer),
     or_paused = False\<rparr>"

definition registerEntity ::
  "orch_state \<Rightarrow> address \<Rightarrow> uint256 \<Rightarrow> EntityType \<Rightarrow> string list \<Rightarrow> error + (bool \<times> orch_state)" where
  "registerEntity s sender now type modules =
     (if or_paused s then Inl EnforcedPause
      else if en_wallet (or_entities s sender) \<noteq> 0 then Inl (Revert ''Entity exists'')
      else if \<not> 0 < length modules then Inl (Revert ''No modules specified'')
      else Inr (True,
        s\<lparr>or_entities := (or_entities s)(sender :=
             \<lparr>en_wallet = sender, en_entityType = type, en_activeModules = modules,
              en_reputationScore = 500, en_verified = False, en_created = now,
              en_totalTransactions = 0\<rparr>)\<rparr>))"

definition verifyEntity :: "orch_state \<Rightarrow> address \<Rightarrow> address \<Rightarrow> error + orch_state" where
  "verifyEntity s sender entity =
     (if \<not> or_roles s VERIFIER_ROLE sender then Inl AccessControlUnauthorizedAccount
      else if \<not> en_wallet (or_entities s entity) \<noteq> 0 then Inl (Revert ''Entity not found'')
      else if en_verified (or_entities s entity) then Inl (Revert ''Already verified'')
      else Inr (s\<lparr>or_entities := (or_entities s)(entity :=
             (or_entities s entity)\<lparr>en_verified := True\<rparr>)\<rparr>))"

definition completeCrossModuleTransaction ::
  "orch_state \<Rightarrow> address \<Rightarrow> bytes32 \<Rightarrow> error + (bool \<times> orch_state)" where
  "completeCrossModuleTransaction s sender txId =
     (if \<not> or_roles s MODULE_ROLE sender then Inl AccessControlUnauthorizedAccount
      else
        let txn = or_transactions s txId in
        if tx_status txn \<noteq> PROCESSING then Inl (Revert ''Invalid status'')
        else
          let s1 = s\<lparr>or_transactions := (or_transactions s)(txId :=
                     txn\<lparr>tx_status := COMPLETED\<rparr>)\<rparr>;
              ent = or_entities s1 (tx_initiator txn) in
          (case checked_add (en_totalTransactions ent) 1 of
            Inl e \<Rightarrow> Inl e
          | Inr n \<Rightarrow>
              Inr (True, s1\<lparr>or_entities := (or_entities s1)(tx_initiator txn :=
                     ent\<lparr>en_totalTransactions := n\<rparr>)\<rparr>)))"

text \<open>
  \<open>change\<close> is the \<^verbatim>\<open>int256\<close> argument: \<^verbatim>\<open>_change > 0\<close> is a signed comparison,
  \<^verbatim>\<open>-_change\<close> is checked, and \<^verbatim>\<open>uint256(...)\<close> keeps the bits.
\<close>

definition updateReputation ::
  "orch_state \<Rightarrow> address \<Rightarrow> address \<Rightarrow> int256 \<Rightarrow> error + orch_state" where
  "updateReputation s sender entity change =
     (if \<not> or_roles s MODULE_ROLE sender then Inl AccessControlUnauthorizedAccount
      else
        let ent = or_entities s entity in
        if \<not> en_wallet ent \<noteq> 0 then Inl (Revert ''Entity not found'')
        else if 0 < sint change then
          (case checked_add (en_reputationScore ent) change of
            Inl e \<Rightarrow> Inl e
          | Inr raised \<Rightarrow>
              Inr (s\<lparr>or_entities := (or_entities s)(entity :=
                     ent\<lparr>en_reputationScore := (if 1000 < raised then 1000 else raised)\<rparr>)\<rparr>))
        else
          (case checked_neg change of
            Inl e \<Rightarrow> Inl e
          | Inr negated \<Rightarrow>
              let decrease = negated in
              if en_reputationScore ent \<le> decrease then
                Inr (s\<lparr>or_entities := (or_entities s)(entity :=
                       ent\<lparr>en_reputationScore := 0\<rparr>)\<rparr>)
              else
                (case checked_sub (en_reputationScore ent) decrease of
                  Inl e \<Rightarrow> Inl e
                | Inr lowered \<Rightarrow>
                    Inr (s\<lparr>or_entities := (or_entities s)(entity :=
                           ent\<lparr>en_reputationScore := lowered\<rparr>)\<rparr>))))"

text \<open>\<^verbatim>\<open>pause\<close> closes what \<^verbatim>\<open>whenNotPaused\<close> guards.\<close>

definition pause :: "orch_state \<Rightarrow> address \<Rightarrow> error + orch_state" where
  "pause s sender =
     (if \<not> or_roles s ADMIN_ROLE sender then Inl AccessControlUnauthorizedAccount
      else if or_paused s then Inl EnforcedPause
      else Inr (s\<lparr>or_paused := True\<rparr>))"

section \<open>HealthcareContract (src/hedera/workflow.ts, lines 783 to 942)\<close>

record HealthInsurance =
  hi_policyId :: bytes32
  hi_patient :: address
  hi_planType :: string
  hi_monthlyPremium :: uint256
  hi_coverageLimit :: uint256
  hi_autoDeduct :: bool
  hi_paymentSource :: address
  hi_active :: bool
  hi_startDate :: uint256

record HealthcareVisit =
  vs_visitId :: bytes32
  vs_patient :: address
  vs_facility :: address
  vs_diagnosis :: string
  vs_cost :: uint256
  vs_insuranceCovered :: uint256
  vs_patientPayment :: uint256
  vs_timestamp :: uint256

record health_state =
  hc_orchestrator :: address
  hc_insurancePolicies :: "bytes32 \<Rightarrow> HealthInsurance"
  hc_patientInsurance :: "address \<Rightarrow> bytes32"
  hc_visits :: "bytes32 \<Rightarrow> HealthcareVisit"
  hc_roles :: "role \<Rightarrow> address \<Rightarrow> bool"

definition zero_HealthInsurance :: HealthInsurance where
  "zero_HealthInsurance = \<lparr>hi_policyId = 0, hi_patient = 0, hi_planType = [],
     hi_monthlyPremium = 0, hi_coverageLimit = 0, hi_autoDeduct = False, hi_paymentSource = 0,
     hi_active = False, hi_startDate = 0\<rparr>"

definition zero_HealthcareVisit :: HealthcareVisit where
  "zero_HealthcareVisit = \<lparr>vs_visitId = 0, vs_patient = 0, vs_facility = 0, vs_diagnosis = [],
     vs_cost = 0, vs_insuranceCovered = 0, vs_patientPayment = 0, vs_timestamp = 0\<rparr>"

definition health_init :: "address \<Rightarrow> address \<Rightarrow> health_state" where
  "health_init deployer orch = \<lparr>hc_orchestrator = orch,
     hc_insurancePolicies = (\<lambda>_. zero_HealthInsurance), hc_patientInsurance = (\<lambda>_. 0),
     hc_visits = (\<lambda>_. zero_HealthcareVisit),
     hc_roles = (\<lambda>r a. (r = DEFAULT_ADMIN_ROLE \<or> r = ADMIN_ROLE) \<and> a = deployer)\<rparr>"

text \<open>
  \<open>createHealthPolicy\<close> is \<^verbatim>\<open>HealthcareContract.createInsurancePolicy\<close>, renamed apart from
  the operation of the same name in the agriculture contract.
\<close>

definition createHealthPolicy ::
  "keccak \<Rightarrow> health_state \<Rightarrow> address \<Rightarrow> uint256 \<Rightarrow> string \<Rightarrow> uint256 \<Rightarrow> uint256 \<Rightarrow> bool
     \<Rightarrow> bytes32 \<times> health_state" where
  "createHealthPolicy H s sender now planType monthlyPremium coverageLimit autoDeduct =
     (let policyId = H [Addr sender, Str planType, U256 now] in
      (policyId,
       s\<lparr>hc_insurancePolicies := (hc_insurancePolicies s)(policyId :=
            \<lparr>hi_policyId = policyId, hi_patient = sender, hi_planType = planType,
             hi_monthlyPremium = monthlyPremium, hi_coverageLimit = coverageLimit,
             hi_autoDeduct = autoDeduct, hi_paymentSource = 0, hi_active = True,
             hi_startDate = now\<rparr>),
         hc_patientInsurance := (hc_patientInsurance s)(sender := policyId)\<rparr>))"

definition recordVisit ::
  "keccak \<Rightarrow> health_state \<Rightarrow> address \<Rightarrow> uint256 \<Rightarrow> address \<Rightarrow> address \<Rightarrow> string \<Rightarrow> uint256
     \<Rightarrow> error + (bytes32 \<times> health_state)" where
  "recordVisit H s sender now patient facility diagnosis cost =
     (if \<not> hc_roles s PROVIDER_ROLE sender then Inl AccessControlUnauthorizedAccount
      else
        let visitId = H [Addr patient, Addr facility, U256 now];
            policyId = hc_patientInsurance s patient;
            policy = hc_insurancePolicies s policyId in
        (case (if hi_active policy \<and> cost \<le> hi_coverageLimit policy
               then (case checked_mul cost 80 of
                       Inl e \<Rightarrow> Inl e
                     | Inr product \<Rightarrow>
                         let insuranceCovered = product div 100 in
                         (case checked_sub cost insuranceCovered of
                           Inl e \<Rightarrow> Inl e
                         | Inr patientPayment \<Rightarrow> Inr (insuranceCovered, patientPayment)))
               else Inr (0, cost)) of
          Inl e \<Rightarrow> Inl e
        | Inr (insuranceCovered, patientPayment) \<Rightarrow>
            Inr (visitId,
              s\<lparr>hc_visits := (hc_visits s)(visitId :=
                   \<lparr>vs_visitId = visitId, vs_patient = patient, vs_facility = facility,
                    vs_diagnosis = diagnosis, vs_cost = cost,
                    vs_insuranceCovered = insuranceCovered,
                    vs_patientPayment = patientPayment, vs_timestamp = now\<rparr>)\<rparr>)))"

section \<open>SustainabilityContract (src/hedera/src/contracts/Sustainability.sol)\<close>

record CarbonCredit =
  cc_creditId :: bytes32
  cc_entity :: address
  cc_amount :: uint256
  cc_vintage :: uint256
  cc_projectType :: string
  cc_verified :: bool
  cc_retired :: bool
  cc_timestamp :: uint256

record sust_state =
  su_carbonCreditNFT :: address
  su_carbonCredits :: "bytes32 \<Rightarrow> CarbonCredit"
  su_entityCarbonBalance :: "address \<Rightarrow> uint256"
  su_roles :: "role \<Rightarrow> address \<Rightarrow> bool"

definition zero_CarbonCredit :: CarbonCredit where
  "zero_CarbonCredit = \<lparr>cc_creditId = 0, cc_entity = 0, cc_amount = 0, cc_vintage = 0,
     cc_projectType = [], cc_verified = False, cc_retired = False, cc_timestamp = 0\<rparr>"

definition sust_init :: "address \<Rightarrow> address \<Rightarrow> sust_state" where
  "sust_init deployer nft = \<lparr>su_carbonCreditNFT = nft,
     su_carbonCredits = (\<lambda>_. zero_CarbonCredit), su_entityCarbonBalance = (\<lambda>_. 0),
     su_roles = (\<lambda>r a. (r = DEFAULT_ADMIN_ROLE \<or> r = ADMIN_ROLE) \<and> a = deployer)\<rparr>"

text \<open>\<^verbatim>\<open>365 days\<close> is 31536000 seconds.\<close>

definition awardCarbonCredits ::
  "keccak \<Rightarrow> sust_state \<Rightarrow> address \<Rightarrow> uint256 \<Rightarrow> address \<Rightarrow> uint256 \<Rightarrow> string
     \<Rightarrow> error + (bytes32 \<times> sust_state)" where
  "awardCarbonCredits H s sender now entity amount projectType =
     (if \<not> su_roles s VERIFIER_ROLE sender then Inl AccessControlUnauthorizedAccount
      else
        let creditId = H [Addr entity, U256 amount, U256 now] in
        (case checked_add (now div 31536000) 1970 of
          Inl e \<Rightarrow> Inl e
        | Inr vintage \<Rightarrow>
            let s1 = s\<lparr>su_carbonCredits := (su_carbonCredits s)(creditId :=
                       \<lparr>cc_creditId = creditId, cc_entity = entity, cc_amount = amount,
                        cc_vintage = vintage, cc_projectType = projectType,
                        cc_verified = True, cc_retired = False, cc_timestamp = now\<rparr>)\<rparr> in
            (case checked_add (su_entityCarbonBalance s1 entity) amount of
              Inl e \<Rightarrow> Inl e
            | Inr balance \<Rightarrow>
                Inr (creditId,
                  s1\<lparr>su_entityCarbonBalance := (su_entityCarbonBalance s1)(entity := balance)\<rparr>))))"

definition retireCredits :: "sust_state \<Rightarrow> address \<Rightarrow> bytes32 \<Rightarrow> error + sust_state" where
  "retireCredits s sender creditId =
     (let credit = su_carbonCredits s creditId in
      if cc_entity credit \<noteq> sender then Inl (Revert ''Not credit owner'')
      else if cc_retired credit then Inl (Revert ''Already retired'')
      else
        let credit' = credit\<lparr>cc_retired := True\<rparr>;
            s1 = s\<lparr>su_carbonCredits := (su_carbonCredits s)(creditId := credit')\<rparr> in
        (case checked_sub (su_entityCarbonBalance s1 sender) (cc_amount credit') of
          Inl e \<Rightarrow> Inl e
        | Inr balance \<Rightarrow>
            Inr (s1\<lparr>su_entityCarbonBalance := (su_entityCarbonBalance s1)(sender := balance)\<rparr>)))"

text \<open>
  Sequences of calls to the two operations that touch the credits and the balances. A call
  that reverts leaves the storage unchanged.
\<close>

datatype sust_call =
    Award address uint256 address uint256 string
  | Retire address bytes32

fun sust_step :: "keccak \<Rightarrow> sust_state \<Rightarrow> sust_call \<Rightarrow> sust_state" where
  "sust_step H s (Award sender now entity amount projectType) =
     (case awardCarbonCredits H s sender now entity amount projectType of
        Inl _ \<Rightarrow> s | Inr (_, s') \<Rightarrow> s')"
| "sust_step H s (Retire sender creditId) =
     (case retireCredits s sender creditId of Inl _ \<Rightarrow> s | Inr s' \<Rightarrow> s')"

definition sust_run :: "keccak \<Rightarrow> sust_state \<Rightarrow> sust_call list \<Rightarrow> sust_state" where
  "sust_run H s calls = foldl (sust_step H) s calls"

text \<open>
  What a credit adds to the sum of the unretired credits of \<open>e\<close>, and that sum over the
  whole mapping (the keys nothing was stored at hold the zero credit and add nothing).
\<close>

definition unretired_amount :: "CarbonCredit \<Rightarrow> address \<Rightarrow> nat" where
  "unretired_amount c e = (if cc_entity c = e \<and> \<not> cc_retired c then unat (cc_amount c) else 0)"

definition unretired_total :: "sust_state \<Rightarrow> address \<Rightarrow> nat" where
  "unretired_total s e = (\<Sum>creditId\<in>UNIV. unretired_amount (su_carbonCredits s creditId) e)"

text \<open>A sequence of calls in which every award is stored at a key that holds no credit yet.\<close>

fun fresh_call :: "keccak \<Rightarrow> sust_state \<Rightarrow> sust_call \<Rightarrow> bool" where
  "fresh_call H s (Award sender now entity amount projectType) =
     (su_carbonCredits s (H [Addr entity, U256 amount, U256 now]) = zero_CarbonCredit)"
| "fresh_call H s (Retire sender creditId) = True"

fun fresh_run :: "keccak \<Rightarrow> sust_state \<Rightarrow> sust_call list \<Rightarrow> bool" where
  "fresh_run H s [] = True"
| "fresh_run H s (c # cs) = (fresh_call H s c \<and> fresh_run H (sust_step H s c) cs)"

section \<open>Example inputs\<close>

text \<open>
  A stand-in for \<^verbatim>\<open>keccak256\<close> in the examples. The examples compare identifiers made
  from equal inputs only, so they hold for every hash function.
\<close>

fun abi_num :: "abi_val \<Rightarrow> uint256" where
  "abi_num (Addr a) = ucast a"
| "abi_num (Str cs) = of_nat (length cs)"
| "abi_num (U256 n) = n"
| "abi_num (B32 b) = b"

definition example_hash :: keccak where
  "example_hash vs = foldl (\<lambda>h v. h * 31 + abi_num v) 7 vs"

definition max_uint256 :: uint256 where
  "max_uint256 = 115792089237316195423570985008687907853269984665640564039457584007913129639935"

definition min_int256 :: int256 where
  "min_int256 = 57896044618658097711785492504343953926634992332820282019728792003956564819968"

text \<open>
  An agriculture contract deployed by address 1, holding 10000, with one sales contract
  (farmer 2, buyer 3) in escrow and confirmed, and one active crop insurance policy of
  farmer 2; address 4 is a verifier.
\<close>

definition ex_contract :: SalesContract where
  "ex_contract = \<lparr>sc_contractId = 7, sc_farmer = 2, sc_buyer = 3, sc_harvestId = 5,
     sc_quantity = 100, sc_pricePerUnit = 100, sc_totalAmount = 10000, sc_escrowAmount = 10000,
     sc_deliveryConfirmed = True, sc_qualityVerified = True, sc_completed = False,
     sc_createdAt = 0\<rparr>"

definition ex_policy :: CropInsurance where
  "ex_policy = \<lparr>ci_policyId = 9, ci_farmer = 2, ci_cropType = ''coffee'',
     ci_insuredValue = 10000, ci_premium = 400, ci_coveragePercentage = 80, ci_active = True,
     ci_startDate = 0, ci_endDate = 7776000\<rparr>"

definition ex_agri :: agri_state where
  "ex_agri = (agri_init 1 0 0)\<lparr>
     ag_salesContracts := (\<lambda>_. zero_SalesContract)(7 := ex_contract),
     ag_insurancePolicies := (\<lambda>_. zero_CropInsurance)(9 := ex_policy),
     ag_roles := (\<lambda>r a. (r = ADMIN_ROLE \<and> a = 1) \<or> (r = VERIFIER_ROLE \<and> a = 4)),
     ag_balance := 10000\<rparr>"

text \<open>
  An orchestrator deployed by address 1, with module 6 and the registered wallet 2, whose
  transaction 11 is being processed.
\<close>

definition ex_entity :: Entity where
  "ex_entity = \<lparr>en_wallet = 2, en_entityType = FARMER, en_activeModules = [''agriculture''],
     en_reputationScore = 500, en_verified = True, en_created = 0, en_totalTransactions = 0\<rparr>"

definition ex_txn :: CrossModuleTransaction where
  "ex_txn = \<lparr>tx_txId = 11, tx_initiator = 2, tx_involvedModules = [''agriculture''],
     tx_status = PROCESSING, tx_timestamp = 0, tx_value = 100\<rparr>"

definition ex_orch :: orch_state where
  "ex_orch = (orch_init 1)\<lparr>
     or_entities := (\<lambda>_. zero_Entity)(2 := ex_entity),
     or_transactions := (\<lambda>_. zero_CrossModuleTransaction)(11 := ex_txn),
     or_roles := (\<lambda>r a. (r = ADMIN_ROLE \<and> a = 1) \<or> (r = MODULE_ROLE \<and> a = 6))\<rparr>"

text \<open>
  A healthcare contract in which patient 2 holds an active policy with coverage limit 5000
  and address 8 is a provider.
\<close>

definition ex_health_policy :: HealthInsurance where
  "ex_health_policy = \<lparr>hi_policyId = 13, hi_patient = 2, hi_planType = ''basic'',
     hi_monthlyPremium = 50, hi_coverageLimit = 5000, hi_autoDeduct = True,
     hi_paymentSource = 0, hi_active = True, hi_startDate = 0\<rparr>"

definition ex_health :: health_state where
  "ex_health = (health_init 1 0)\<lparr>
     hc_insurancePolicies := (\<lambda>_. zero_HealthInsurance)(13 := ex_health_policy),
     hc_patientInsurance := (\<lambda>_. 0)(2 := 13),
     hc_roles := (\<lambda>r a. r = PROVIDER_ROLE \<and> a = 8)\<rparr>"

text \<open>A sustainability contract in which address 4 is a verifier.\<close>

definition ex_sust :: sust_state where
  "ex_sust = (sust_init 1 0)\<lparr>su_roles := (\<lambda>r a. r = VERIFIER_ROLE \<and> a = 4)\<rparr>"

text \<open>What the caller of an operation gets back.\<close>

definition returned :: "error + ('a \<times> 's) \<Rightarrow> error + 'a" where
  "returned r = (case r of Inl e \<Rightarrow> Inl e | Inr (x, _) \<Rightarrow> Inr x)"

text \<open>The credit of 1000 tons awarded to entity 2 at time 0, and the storage holding it.\<close>

definition ex_credit :: CarbonCredit where
  "ex_credit = \<lparr>cc_creditId = example_hash [Addr 2, U256 1000, U256 0], cc_entity = 2,
     cc_amount = 1000, cc_vintage = 1970, cc_projectType = ''organic'', cc_verified = True,
     cc_retired = False, cc_timestamp = 0\<rparr>"

definition ex_sust_awarded :: sust_state where
  "ex_sust_awarded = ex_sust\<lparr>
     su_carbonCredits := (\<lambda>_. zero_CarbonCredit)(example_hash [Addr 2, U256 1000, U256 0] :=
       ex_credit),
     su_entityCarbonBalance := (\<lambda>_. 0)(2 := 1000)\<rparr>"

text \<open>The harvest of 50 units of coffee recorded by farmer 2 at time 100.\<close>

definition ex_harvest :: Harvest where
  "ex_harvest = \<lparr>hv_harvestId = example_hash [Addr 2, Str ''coffee'', U256 50, U256 100],
     hv_farmer = 2, hv_cropType = ''coffee'', hv_quantity = 50, hv_qualityGrade = 5,
     hv_timestamp = 100, hv_verified = False\<rparr>"

definition ex_agri_harvested :: agri_state where
  "ex_agri_harvested = ex_agri\<lparr>
     ag_harvests := (\<lambda>_. zero_Harvest)(example_hash [Addr 2, Str ''coffee'', U256 50, U256 100] :=
       ex_harvest),
     ag_farmerHarvests := (\<lambda>_. [])(2 :=
       [example_hash [Addr 2, Str ''coffee'', U256 50, U256 100]])\<rparr>"

text \<open>
  The storage \<open>ex_agri\<close> after contract 7 is paid, and calls made afterwards: a deposit and
  a confirmation on contract 7, an attempt to create another contract, and a change of roles
  that makes address 9 an admin.
\<close>

definition ex_agri_paid :: agri_state where
  "ex_agri_paid = ex_agri\<lparr>
     ag_salesContracts := (ag_salesContracts ex_agri)(7 := ex_contract\<lparr>sc_completed := True\<rparr>),
     ag_balance := 15\<rparr>"

definition ex_later_calls :: "agri_call list" where
  "ex_later_calls = [DepositEscrow 3 12000 7, ConfirmDeliveryAndQuality 4 7,
     CreateSalesContract 2 100 3 5 50 200, SetRoles (\<lambda>r a. r = ADMIN_ROLE \<and> a = 9)]"

text \<open>
  The sale of the recorded harvest by farmer 2 to buyer 3 at time 100, for 50 units at 200
  (a total of 10000): its identifier, and the calls that create the contract, put the
  total in escrow and confirm the delivery.
\<close>

definition ex_sale_id :: bytes32 where
  "ex_sale_id = example_hash [Addr 2, Addr 3,
     B32 (example_hash [Addr 2, Str ''coffee'', U256 50, U256 100]), U256 100]"

definition ex_sale_create :: agri_call where
  "ex_sale_create = CreateSalesContract 2 100 3
     (example_hash [Addr 2, Str ''coffee'', U256 50, U256 100]) 50 200"

definition ex_sale_calls :: "agri_call list" where
  "ex_sale_calls = [ex_sale_create, DepositEscrow 3 10000 ex_sale_id,
     ConfirmDeliveryAndQuality 4 ex_sale_id]"

section \<open>Checked arithmetic\<close>

lemma unat_mul_ok:
  "unat (a::uint256) * unat b < 2 ^ 256 \<Longrightarrow> unat (a * b) = unat a * unat b"
  by (simp add: unat_word_ariths)

lemma unat_add_ok:
  "unat (a::uint256) + unat b < 2 ^ 256 \<Longrightarrow> unat (a + b) = unat a + unat b"
  by (simp add: unat_word_ariths)

lemma unat_sub_ok:
  "unat b \<le> unat (a::uint256) \<Longrightarrow> unat (a - b) = unat a - unat b"
  by (simp add: unat_sub word_le_nat_alt)

lemma fee_le: "unat (e::uint256) * 15 < 2 ^ 256 \<Longrightarrow> unat (e * 15 div 10000) \<le> unat e"
  by (simp add: unat_div unat_mul_ok)

section \<open>Escrow payment (claim C1)\<close>

text \<open>
  Once a contract is completed, no call changes its record, except a
  \<open>createSalesContract\<close> that makes the same identifier again.
\<close>

lemma agri_step_keeps_completed:
  assumes compl: "sc_completed (ag_salesContracts s cid)"
    and other: "\<not> recreates H cid c"
  shows "ag_salesContracts (agri_step H s c) cid = ag_salesContracts s cid"
proof (cases c)
  case (RecordHarvest sender now cropType quantity qualityGrade)
  then show ?thesis
    by (simp add: recordHarvest_def storage_after_def Let_def)
next
  case (CreateSalesContract sender now buyer harvestId quantity pricePerUnit)
  then show ?thesis
    using other
    by (auto simp add: createSalesContract_def storage_after_def Let_def split: sum.splits)
next
  case (DepositEscrow sender v contractId)
  then show ?thesis
    using compl by (cases "contractId = cid") (simp_all add: depositEscrow_def Let_def)
next
  case (ConfirmDeliveryAndQuality sender contractId)
  then show ?thesis
    using compl by (cases "contractId = cid") (simp_all add: confirmDeliveryAndQuality_def Let_def)
next
  case (ProcessPayment accepts sender contractId)
  show ?thesis
  proof (cases "contractId = cid")
    case True
    then have "\<exists>e. processPayment accepts s sender contractId = Inl e"
      using compl by (simp add: processPayment_def Let_def)
    then show ?thesis
      using ProcessPayment by (auto simp add: storage_after_def)
  next
    case False
    then show ?thesis
      using ProcessPayment
      by (auto simp add: processPayment_def storage_after_def call_value_def Let_def
          split: sum.splits option.splits if_splits)
  qed
next
  case (CreateInsurancePolicy sender v now cropType insuredValue coveragePercentage durationDays)
  then show ?thesis
    by (auto simp add: createInsurancePolicy_def storage_after_def Let_def
        split: sum.splits if_splits)
next
  case (ProcessInsurancePayout accepts sender now policyId payoutPercentage)
  then show ?thesis
    by (auto simp add: processInsurancePayout_def call_value_def Let_def
        split: sum.splits option.splits if_splits)
next
  case (SetRoles roles)
  then show ?thesis by simp
qed

lemma agri_run_keeps_completed:
  "sc_completed (ag_salesContracts s cid) \<Longrightarrow> \<forall>c\<in>set calls. \<not> recreates H cid c \<Longrightarrow>
   ag_salesContracts (agri_run H s calls) cid = ag_salesContracts s cid"
proof (induction calls arbitrary: s)
  case Nil
  then show ?case by (simp add: agri_run_def)
next
  case (Cons c cs)
  have step: "ag_salesContracts (agri_step H s c) cid = ag_salesContracts s cid"
    using Cons.prems by (intro agri_step_keeps_completed) simp_all
  then have "sc_completed (ag_salesContracts (agri_step H s c) cid)"
    using Cons.prems(1) by simp
  from Cons.IH [OF this] Cons.prems(2) step show ?case
    by (simp add: agri_run_def)
qed

text \<open>
  C1, as amended. Take a sales contract whose delivery and quality flags are set, which is
  not completed and whose escrow amount is positive with \<open>escrowAmount * 15\<close> below
  \<open>2 ^ 256\<close>, and let the buyer or an admin call \<open>processPayment\<close>. The payment is exactly
  \<open>escrowAmount - escrowAmount * 15 div 10000\<close>. If the contract holds it and the farmer
  accepts it, the call returns it; the storage the farmer is paid on already has
  \<open>completed = true\<close> (a recipient that also insists on seeing the flag set gets the same
  outcome); and after any sequence of later calls to the contract, none of them a
  \<open>createSalesContract\<close> that makes the identifier of this contract again, a call by the
  buyer or by whoever is an admin then fails with ``Already completed''. If the contract
  does not hold the payment or the farmer rejects it, the call fails with
  ``Payment failed'', and nothing is stored.
\<close>

theorem processPayment_pays_once:
  assumes auth: "sender = sc_buyer (ag_salesContracts s cid) \<or> ag_roles s ADMIN_ROLE sender"
    and deliv: "sc_deliveryConfirmed (ag_salesContracts s cid)"
    and qual: "sc_qualityVerified (ag_salesContracts s cid)"
    and notdone: "\<not> sc_completed (ag_salesContracts s cid)"
    and pos: "0 < sc_escrowAmount (ag_salesContracts s cid)"
    and fits: "unat (sc_escrowAmount (ag_salesContracts s cid)) * 15 < 2 ^ 256"
    and pay: "pay = sc_escrowAmount (ag_salesContracts s cid)
                - sc_escrowAmount (ag_salesContracts s cid) * 15 div 10000"
    and s1: "s1 = s\<lparr>ag_salesContracts := (ag_salesContracts s)(cid :=
                (ag_salesContracts s cid)\<lparr>sc_completed := True\<rparr>)\<rparr>"
    and s2: "s2 = s1\<lparr>ag_balance := ag_balance s - unat pay\<rparr>"
  shows "unat pay = unat (sc_escrowAmount (ag_salesContracts s cid))
        - unat (sc_escrowAmount (ag_salesContracts s cid)) * 15 div 10000
    \<and> (unat pay \<le> ag_balance s \<and> accepts s1 (sc_farmer (ag_salesContracts s cid)) pay \<longrightarrow>
          processPayment accepts s sender cid = Inr (pay, s2)
        \<and> processPayment (\<lambda>st to v. sc_completed (ag_salesContracts st cid) \<and> accepts st to v)
              s sender cid = processPayment accepts s sender cid
        \<and> (\<forall>calls accepts' sender'.
              (\<forall>c\<in>set calls. \<not> recreates H cid c)
              \<and> (sender' = sc_buyer (ag_salesContracts s cid)
                   \<or> ag_roles (agri_run H s2 calls) ADMIN_ROLE sender') \<longrightarrow>
              processPayment accepts' (agri_run H s2 calls) sender' cid
                = Inl (Revert ''Already completed'')))
    \<and> (\<not> (unat pay \<le> ag_balance s \<and> accepts s1 (sc_farmer (ag_salesContracts s cid)) pay) \<longrightarrow>
          processPayment accepts s sender cid = Inl (Revert ''Payment failed''))"
proof -
  let ?c = "ag_salesContracts s cid"
  let ?e = "sc_escrowAmount ?c"
  have mul: "checked_mul ?e 15 = Inr (?e * 15)"
    using fits by (simp add: checked_mul_def)
  have le: "unat (?e * 15 div 10000) \<le> unat ?e"
    using fits by (rule fee_le)
  have sub: "checked_sub ?e (?e * 15 div 10000) = Inr pay"
    using le by (simp add: checked_sub_def pay)
  have amount: "unat pay = unat ?e - unat ?e * 15 div 10000"
    using le fits by (simp add: pay unat_sub_ok unat_div unat_mul_ok)
  have outcome: "processPayment a s sender cid
      = (case call_value a s1 (sc_farmer ?c) pay of
           None \<Rightarrow> Inl (Revert ''Payment failed'') | Some t \<Rightarrow> Inr (pay, t))" for a
    using auth deliv qual notdone pos mul sub
    by (auto simp add: processPayment_def Let_def s1)
  have failed: "processPayment accepts s sender cid = Inl (Revert ''Payment failed'')"
    if "\<not> (unat pay \<le> ag_balance s \<and> accepts s1 (sc_farmer ?c) pay)"
    using that by (auto simp add: outcome call_value_def s1)
  have paid: "processPayment accepts s sender cid = Inr (pay, s2)"
    and seen: "processPayment (\<lambda>st to v. sc_completed (ag_salesContracts st cid) \<and> accepts st to v)
        s sender cid = processPayment accepts s sender cid"
    if "unat pay \<le> ag_balance s \<and> accepts s1 (sc_farmer ?c) pay"
    using that by (simp_all add: outcome call_value_def s1 s2)
  have later: "processPayment accepts' (agri_run H s2 calls) sender' cid
      = Inl (Revert ''Already completed'')"
    if quiet: "\<forall>c\<in>set calls. \<not> recreates H cid c"
      and who: "sender' = sc_buyer ?c \<or> ag_roles (agri_run H s2 calls) ADMIN_ROLE sender'"
    for calls accepts' sender'
  proof -
    have rec: "ag_salesContracts s2 cid = ?c\<lparr>sc_completed := True\<rparr>"
      by (simp add: s1 s2)
    then have "sc_completed (ag_salesContracts s2 cid)"
      by simp
    then have "ag_salesContracts (agri_run H s2 calls) cid = ag_salesContracts s2 cid"
      using quiet by (rule agri_run_keeps_completed)
    then have kept: "ag_salesContracts (agri_run H s2 calls) cid = ?c\<lparr>sc_completed := True\<rparr>"
      using rec by simp
    show ?thesis
      using who deliv qual by (auto simp add: processPayment_def Let_def kept)
  qed
  show ?thesis
    using amount failed paid seen later by blast
qed

text \<open>
  The contract of the example pays 9985 out of 10000; it cannot be paid again after the
  later calls of the example, by the buyer or by the new admin; and it is not paid when the
  farmer rejects the transfer.
\<close>

lemmas ex_agri_simps = ex_agri_def ex_contract_def ex_policy_def agri_init_def

lemma ex_later_quiet: "\<forall>c\<in>set ex_later_calls. \<not> recreates example_hash 7 c"
  by (simp add: ex_later_calls_def example_hash_def)

lemma ex_later_run:
  "agri_run example_hash ex_agri_paid ex_later_calls
     = ex_agri_paid\<lparr>ag_roles := (\<lambda>r a. r = ADMIN_ROLE \<and> a = 9)\<rparr>"
  by (simp add: agri_run_def ex_later_calls_def ex_agri_paid_def ex_agri_simps
      depositEscrow_def confirmDeliveryAndQuality_def createSalesContract_def
      storage_after_def zero_Harvest_def Let_def)


theorem processPayment_pays_once_witness:
  "processPayment (\<lambda>_ _ _. True) ex_agri 3 7 = Inr (9985, ex_agri_paid)
   \<and> processPayment (\<lambda>_ _ _. True) (agri_run example_hash ex_agri_paid ex_later_calls) 3 7
       = Inl (Revert ''Already completed'')
   \<and> ag_roles (agri_run example_hash ex_agri_paid ex_later_calls) ADMIN_ROLE 9
   \<and> processPayment (\<lambda>_ _ _. True) (agri_run example_hash ex_agri_paid ex_later_calls) 9 7
       = Inl (Revert ''Already completed'')
   \<and> processPayment (\<lambda>_ _ _. False) ex_agri 3 7 = Inl (Revert ''Payment failed'')"
proof -
  have auth: "3 = sc_buyer (ag_salesContracts ex_agri 7) \<or> ag_roles ex_agri ADMIN_ROLE 3"
    and deliv: "sc_deliveryConfirmed (ag_salesContracts ex_agri 7)"
    and qual: "sc_qualityVerified (ag_salesContracts ex_agri 7)"
    and notdone: "\<not> sc_completed (ag_salesContracts ex_agri 7)"
    and pos: "0 < sc_escrowAmount (ag_salesContracts ex_agri 7)"
    and fits: "unat (sc_escrowAmount (ag_salesContracts ex_agri 7)) * 15 < 2 ^ 256"
    and pay: "(9985::uint256) = sc_escrowAmount (ag_salesContracts ex_agri 7)
        - sc_escrowAmount (ag_salesContracts ex_agri 7) * 15 div 10000"
    and s2: "ex_agri_paid = ex_agri\<lparr>ag_salesContracts := (ag_salesContracts ex_agri)(7 :=
        (ag_salesContracts ex_agri 7)\<lparr>sc_completed := True\<rparr>)\<rparr>
        \<lparr>ag_balance := ag_balance ex_agri - unat (9985::uint256)\<rparr>"
    and funds: "unat (9985::uint256) \<le> ag_balance ex_agri"
    and buyer3: "3 = sc_buyer (ag_salesContracts ex_agri 7)"
    by (simp_all add: ex_agri_paid_def ex_agri_simps)
  have admin: "ag_roles (agri_run example_hash ex_agri_paid ex_later_calls) ADMIN_ROLE 9"
    by (simp add: ex_later_run)
  note all = processPayment_pays_once [OF auth deliv qual notdone pos fits pay refl s2,
      where H = example_hash]
  note paid = all [where accepts = "\<lambda>_ _ _. True", THEN conjunct2, THEN conjunct1, THEN mp,
      OF conjI [OF funds TrueI]]
  note later = paid [THEN conjunct2, THEN conjunct2, rule_format]
  have first: "processPayment (\<lambda>_ _ _. True) ex_agri 3 7 = Inr (9985, ex_agri_paid)"
    by (rule paid [THEN conjunct1])
  have buyer: "processPayment (\<lambda>_ _ _. True)
      (agri_run example_hash ex_agri_paid ex_later_calls) 3 7 = Inl (Revert ''Already completed'')"
    using ex_later_quiet buyer3 by (intro later conjI disjI1)
  have other: "processPayment (\<lambda>_ _ _. True)
      (agri_run example_hash ex_agri_paid ex_later_calls) 9 7 = Inl (Revert ''Already completed'')"
    using ex_later_quiet admin by (intro later conjI disjI2)
  have failed: "processPayment (\<lambda>_ _ _. False) ex_agri 3 7 = Inl (Revert ''Payment failed'')"
    by (rule all [where accepts = "\<lambda>_ _ _. False", THEN conjunct2, THEN conjunct2, THEN mp]) simp
  show ?thesis
    using first buyer admin other failed by (intro conjI)
qed

text \<open>
  C1 as stated fails. With every condition of the claim met, the call reverts with
  ``Payment failed'' when the farmer's account rejects the transfer, and with an
  arithmetic panic when \<open>escrowAmount * 15\<close> exceeds 256 bits. Once a contract is paid, a
  later call by someone who is neither the buyer nor an admin fails with ``Unauthorized''.
  And a paid contract can be created again: the sale of the example is created, put in
  escrow, confirmed and paid (9985), and a second payment fails with
  ``Already completed''; the same \<open>createSalesContract\<close> at the same timestamp then stores
  a new contract under the same identifier, on which a payment fails with
  ``Delivery not confirmed'' and, after a new deposit and confirmation, pays 9985 again.
\<close>

lemmas ex_sale_simps = ex_sale_calls_def ex_sale_create_def ex_sale_id_def
  ex_agri_harvested_def ex_harvest_def ex_agri_simps agri_run_def storage_after_def returned_def
  createSalesContract_def depositEscrow_def confirmDeliveryAndQuality_def processPayment_def
  call_value_def checked_mul_def checked_sub_def Let_def

theorem processPayment_counterexample:
  "sc_deliveryConfirmed (ag_salesContracts ex_agri 7)
   \<and> sc_qualityVerified (ag_salesContracts ex_agri 7)
   \<and> \<not> sc_completed (ag_salesContracts ex_agri 7)
   \<and> 0 < sc_escrowAmount (ag_salesContracts ex_agri 7)
   \<and> sc_buyer (ag_salesContracts ex_agri 7) = 3
   \<and> processPayment (\<lambda>_ _ _. False) ex_agri 3 7 = Inl (Revert ''Payment failed'')
   \<and> processPayment (\<lambda>_ _ _. True)
       (ex_agri\<lparr>ag_salesContracts := (ag_salesContracts ex_agri)(7 :=
          ex_contract\<lparr>sc_escrowAmount := max_uint256\<rparr>)\<rparr>) 3 7 = Inl Panic_Arithmetic
   \<and> processPayment (\<lambda>_ _ _. True) ex_agri_paid 5 7 = Inl (Revert ''Unauthorized'')
   \<and> returned (processPayment (\<lambda>_ _ _. True)
        (agri_run example_hash ex_agri_harvested ex_sale_calls) 3 ex_sale_id) = Inr 9985
   \<and> processPayment (\<lambda>_ _ _. True)
        (agri_run example_hash ex_agri_harvested
          (ex_sale_calls @ [ProcessPayment (\<lambda>_ _ _. True) 3 ex_sale_id])) 3 ex_sale_id
       = Inl (Revert ''Already completed'')
   \<and> processPayment (\<lambda>_ _ _. True)
        (agri_run example_hash ex_agri_harvested
          (ex_sale_calls @ [ProcessPayment (\<lambda>_ _ _. True) 3 ex_sale_id, ex_sale_create]))
        3 ex_sale_id
       = Inl (Revert ''Delivery not confirmed'')
   \<and> returned (processPayment (\<lambda>_ _ _. True)
        (agri_run example_hash ex_agri_harvested
          (ex_sale_calls @ [ProcessPayment (\<lambda>_ _ _. True) 3 ex_sale_id] @ ex_sale_calls))
        3 ex_sale_id) = Inr 9985"
proof -
  have one: "sc_deliveryConfirmed (ag_salesContracts ex_agri 7)
      \<and> sc_qualityVerified (ag_salesContracts ex_agri 7)
      \<and> \<not> sc_completed (ag_salesContracts ex_agri 7)
      \<and> 0 < sc_escrowAmount (ag_salesContracts ex_agri 7)
      \<and> sc_buyer (ag_salesContracts ex_agri 7) = 3
      \<and> processPayment (\<lambda>_ _ _. False) ex_agri 3 7 = Inl (Revert ''Payment failed'')
      \<and> processPayment (\<lambda>_ _ _. True)
          (ex_agri\<lparr>ag_salesContracts := (ag_salesContracts ex_agri)(7 :=
             ex_contract\<lparr>sc_escrowAmount := max_uint256\<rparr>)\<rparr>) 3 7 = Inl Panic_Arithmetic
      \<and> processPayment (\<lambda>_ _ _. True) ex_agri_paid 5 7 = Inl (Revert ''Unauthorized'')"
    by (simp add: ex_agri_paid_def ex_agri_simps max_uint256_def processPayment_def
        checked_mul_def checked_sub_def call_value_def Let_def)
  have first: "returned (processPayment (\<lambda>_ _ _. True)
        (agri_run example_hash ex_agri_harvested ex_sale_calls) 3 ex_sale_id) = Inr 9985"
    by (simp add: ex_sale_simps)
  have second: "processPayment (\<lambda>_ _ _. True)
        (agri_run example_hash ex_agri_harvested
          (ex_sale_calls @ [ProcessPayment (\<lambda>_ _ _. True) 3 ex_sale_id])) 3 ex_sale_id
       = Inl (Revert ''Already completed'')"
    by (simp add: ex_sale_simps)
  have third: "processPayment (\<lambda>_ _ _. True)
        (agri_run example_hash ex_agri_harvested
          (ex_sale_calls @ [ProcessPayment (\<lambda>_ _ _. True) 3 ex_sale_id, ex_sale_create]))
        3 ex_sale_id
       = Inl (Revert ''Delivery not confirmed'')"
    by (simp add: ex_sale_simps)
  have fourth: "returned (processPayment (\<lambda>_ _ _. True)
        (agri_run example_hash ex_agri_harvested
          (ex_sale_calls @ [ProcessPayment (\<lambda>_ _ _. True) 3 ex_sale_id] @ ex_sale_calls))
        3 ex_sale_id) = Inr 9985"
    by (simp add: ex_sale_simps)
  show ?thesis
    using one first second third fourth by (intro conjI) simp_all
qed

section \<open>Crop insurance payout (claim C4)\<close>




text \<open>In general: under the same conditions, a transfer that fails makes the call fail.\<close>

lemma processInsurancePayout_transfer_fails:
  assumes ver: "ag_roles s VERIFIER_ROLE sender"
    and act: "ci_active (ag_insurancePolicies s pid)"
    and live: "now \<le> ci_endDate (ag_insurancePolicies s pid)"
    and pct: "payoutPercentage \<le> 100"
    and fits1: "unat (ci_insuredValue (ag_insurancePolicies s pid))
                  * unat (ci_coveragePercentage (ag_insurancePolicies s pid)) < 2 ^ 256"
    and fits2: "unat (ci_insuredValue (ag_insurancePolicies s pid))
                  * unat (ci_coveragePercentage (ag_insurancePolicies s pid))
                  * unat payoutPercentage < 2 ^ 256"
    and pay: "pay = ci_insuredValue (ag_insurancePolicies s pid)
                  * ci_coveragePercentage (ag_insurancePolicies s pid)
                  * payoutPercentage div 10000"
    and s1: "s1 = s\<lparr>ag_insurancePolicies := (ag_insurancePolicies s)(pid :=
                (ag_insurancePolicies s pid)\<lparr>ci_active := False\<rparr>)\<rparr>"
    and refused: "\<not> (unat pay \<le> ag_balance s
                    \<and> accepts s1 (ci_farmer (ag_insurancePolicies s pid)) pay)"
  shows "processInsurancePayout accepts s sender now pid payoutPercentage
           = Inl (Revert ''Payout failed'')"
proof -
  let ?p = "ag_insurancePolicies s pid"
  have mul1: "checked_mul (ci_insuredValue ?p) (ci_coveragePercentage ?p)
      = Inr (ci_insuredValue ?p * ci_coveragePercentage ?p)"
    using fits1 by (simp add: checked_mul_def)
  have u1: "unat (ci_insuredValue ?p * ci_coveragePercentage ?p)
      = unat (ci_insuredValue ?p) * unat (ci_coveragePercentage ?p)"
    using fits1 by (rule unat_mul_ok)
  have mul2: "checked_mul (ci_insuredValue ?p * ci_coveragePercentage ?p) payoutPercentage
      = Inr (ci_insuredValue ?p * ci_coveragePercentage ?p * payoutPercentage)"
    using fits2 by (simp add: checked_mul_def u1)
  have call: "call_value accepts s1 (ci_farmer ?p) pay = None"
    using refused by (auto simp add: call_value_def s1)
  show ?thesis
    using ver act live pct mul1 mul2 call
    by (simp add: processInsurancePayout_def Let_def s1 pay)
qed

section \<open>Escrow deposit (claim C9)\<close>

text \<open>
  C9. \<open>depositEscrow\<close> called by the contract's buyer fails with ``Already completed'' if
  the contract is completed, and else with ``Insufficient payment'' if the amount is below
  the total. Otherwise it keeps the amount and stores it as the escrow amount; a second
  qualifying deposit is kept as well and replaces the stored amount, so the contract then
  holds both deposits while the escrow records the second one only: nothing is refunded.
\<close>

theorem depositEscrow_overwrites:
  assumes buyer: "sc_buyer (ag_salesContracts s cid) = sender"
  shows "(sc_completed (ag_salesContracts s cid) \<longrightarrow>
            depositEscrow s sender amount cid = Inl (Revert ''Already completed''))
    \<and> (\<not> sc_completed (ag_salesContracts s cid)
         \<and> amount < sc_totalAmount (ag_salesContracts s cid) \<longrightarrow>
            depositEscrow s sender amount cid = Inl (Revert ''Insufficient payment''))
    \<and> (\<not> sc_completed (ag_salesContracts s cid)
         \<and> sc_totalAmount (ag_salesContracts s cid) \<le> amount \<longrightarrow>
            depositEscrow s sender amount cid
              = Inr (s\<lparr>ag_balance := ag_balance s + unat amount,
                       ag_salesContracts := (ag_salesContracts s)(cid :=
                         (ag_salesContracts s cid)\<lparr>sc_escrowAmount := amount\<rparr>)\<rparr>)
          \<and> (\<forall>amount2. sc_totalAmount (ag_salesContracts s cid) \<le> amount2 \<longrightarrow>
                depositEscrow
                  (s\<lparr>ag_balance := ag_balance s + unat amount,
                     ag_salesContracts := (ag_salesContracts s)(cid :=
                       (ag_salesContracts s cid)\<lparr>sc_escrowAmount := amount\<rparr>)\<rparr>)
                  sender amount2 cid
                = Inr (s\<lparr>ag_balance := ag_balance s + unat amount + unat amount2,
                         ag_salesContracts := (ag_salesContracts s)(cid :=
                           (ag_salesContracts s cid)\<lparr>sc_escrowAmount := amount2\<rparr>)\<rparr>)))"
  using buyer by (simp add: depositEscrow_def Let_def not_le)

theorem depositEscrow_overwrites_witness:
  "depositEscrow ex_agri 3 12000 7
     = Inr (ex_agri\<lparr>ag_balance := 22000,
         ag_salesContracts := (ag_salesContracts ex_agri)(7 :=
           ex_contract\<lparr>sc_escrowAmount := 12000\<rparr>)\<rparr>)
   \<and> depositEscrow
       (ex_agri\<lparr>ag_balance := 22000,
          ag_salesContracts := (ag_salesContracts ex_agri)(7 :=
            ex_contract\<lparr>sc_escrowAmount := 12000\<rparr>)\<rparr>) 3 10000 7
     = Inr (ex_agri\<lparr>ag_balance := 32000,
         ag_salesContracts := (ag_salesContracts ex_agri)(7 :=
           ex_contract\<lparr>sc_escrowAmount := 10000\<rparr>)\<rparr>)
   \<and> depositEscrow ex_agri 3 9999 7 = Inl (Revert ''Insufficient payment'')
   \<and> depositEscrow
       (ex_agri\<lparr>ag_salesContracts := (ag_salesContracts ex_agri)(7 :=
            ex_contract\<lparr>sc_completed := True\<rparr>)\<rparr>) 3 9999 7
     = Inl (Revert ''Already completed'')"
  using depositEscrow_overwrites [of ex_agri 7 3 12000]
    depositEscrow_overwrites [of ex_agri 7 3 9999]
    depositEscrow_overwrites [of "ex_agri\<lparr>ag_salesContracts := (ag_salesContracts ex_agri)(7 :=
            ex_contract\<lparr>sc_completed := True\<rparr>)\<rparr>" 7 3 9999]
  by (simp add: ex_agri_simps)

section \<open>Registration (claim C5)\<close>

text \<open>
  C5, as amended. While the orchestrator is not paused, \<open>registerEntity\<close> fails with
  ``Entity exists'' for every wallet that is already registered (whatever the modules),
  fails with ``No modules specified'' for every unregistered wallet that gives no module,
  and otherwise returns true and stores the entity with reputation score 500, not
  verified and with no transactions.
\<close>

theorem registerEntity_outcomes:
  assumes running: "\<not> or_paused s"
  shows "(en_wallet (or_entities s sender) \<noteq> 0 \<longrightarrow>
            registerEntity s sender now type modules = Inl (Revert ''Entity exists''))
    \<and> (en_wallet (or_entities s sender) = 0 \<and> modules = [] \<longrightarrow>
            registerEntity s sender now type modules = Inl (Revert ''No modules specified''))
    \<and> (en_wallet (or_entities s sender) = 0 \<and> modules \<noteq> [] \<longrightarrow>
          (\<exists>s'. registerEntity s sender now type modules = Inr (True, s')
             \<and> en_wallet (or_entities s' sender) = sender
             \<and> en_entityType (or_entities s' sender) = type
             \<and> en_activeModules (or_entities s' sender) = modules
             \<and> en_reputationScore (or_entities s' sender) = 500
             \<and> \<not> en_verified (or_entities s' sender)
             \<and> en_totalTransactions (or_entities s' sender) = 0))"
  using running by (simp add: registerEntity_def)

lemmas ex_orch_simps = ex_orch_def ex_entity_def ex_txn_def orch_init_def
  zero_Entity_def zero_CrossModuleTransaction_def

theorem registerEntity_outcomes_witness:
  "registerEntity ex_orch 2 0 BUYER [''agriculture''] = Inl (Revert ''Entity exists'')
   \<and> registerEntity ex_orch 3 0 BUYER [] = Inl (Revert ''No modules specified'')
   \<and> (\<exists>s'. registerEntity ex_orch 3 0 BUYER [''agriculture''] = Inr (True, s')
         \<and> en_reputationScore (or_entities s' 3) = 500 \<and> \<not> en_verified (or_entities s' 3))"
  using registerEntity_outcomes [of ex_orch 2 0 BUYER "[''agriculture'']"]
    registerEntity_outcomes [of ex_orch 3 0 BUYER "[]"]
    registerEntity_outcomes [of ex_orch 3 0 BUYER "[''agriculture'']"]
  by (auto simp add: ex_orch_simps)

text \<open>
  C5 as stated fails: while the orchestrator is paused the modifier \<^verbatim>\<open>whenNotPaused\<close>
  rejects every registration before either check is made, and a registered wallet that
  gives no module is told ``Entity exists''.
\<close>

theorem registerEntity_counterexample:
  "en_wallet (or_entities (ex_orch\<lparr>or_paused := True\<rparr>) 2) \<noteq> 0
   \<and> registerEntity (ex_orch\<lparr>or_paused := True\<rparr>) 2 0 BUYER [''agriculture''] = Inl EnforcedPause
   \<and> registerEntity (ex_orch\<lparr>or_paused := True\<rparr>) 3 0 BUYER [] = Inl EnforcedPause
   \<and> registerEntity ex_orch 2 0 BUYER [] = Inl (Revert ''Entity exists'')"
  by (simp add: ex_orch_simps registerEntity_def)

text \<open>In general: while the orchestrator is paused, every registration is refused.\<close>

lemma registerEntity_paused:
  "or_paused s \<Longrightarrow> registerEntity s sender now type modules = Inl EnforcedPause"
  by (simp add: registerEntity_def)

section \<open>Completing a transaction (claim C8)\<close>

text \<open>
  C8. Let the caller hold the module role, which the operation requires of every caller,
  and let the initiator's transaction counter be below \<open>2 ^ 256 - 1\<close>, a value that only
  \<open>2 ^ 256 - 1\<close> completed transactions could produce. Then for every transaction
  identifier \<open>completeCrossModuleTransaction\<close> succeeds if and only if the status of the
  transaction is \<open>PROCESSING\<close>; on success the status becomes \<open>COMPLETED\<close> and the
  initiator's counter grows by one; with any other status (\<open>PENDING\<close>, or a final one) the
  call fails with ``Invalid status'' and the storage is unchanged.
\<close>

theorem completeCrossModuleTransaction_outcomes:
  assumes module: "or_roles s MODULE_ROLE sender"
    and room: "unat (en_totalTransactions
                 (or_entities s (tx_initiator (or_transactions s txId)))) + 1 < 2 ^ 256"
  shows "((\<exists>s'. completeCrossModuleTransaction s sender txId = Inr (True, s'))
            \<longleftrightarrow> tx_status (or_transactions s txId) = PROCESSING)
    \<and> (tx_status (or_transactions s txId) = PROCESSING \<longrightarrow>
          tx_status (or_transactions
            (storage_after s (completeCrossModuleTransaction s sender txId)) txId) = COMPLETED
        \<and> unat (en_totalTransactions (or_entities
            (storage_after s (completeCrossModuleTransaction s sender txId))
            (tx_initiator (or_transactions s txId))))
          = unat (en_totalTransactions
              (or_entities s (tx_initiator (or_transactions s txId)))) + 1)
    \<and> (tx_status (or_transactions s txId) \<noteq> PROCESSING \<longrightarrow>
          completeCrossModuleTransaction s sender txId = Inl (Revert ''Invalid status'')
        \<and> storage_after s (completeCrossModuleTransaction s sender txId) = s)"
proof -
  let ?n = "en_totalTransactions (or_entities s (tx_initiator (or_transactions s txId)))"
  have inc: "checked_add ?n 1 = Inr (?n + 1)"
    using room by (simp add: checked_add_def)
  have val: "unat (?n + 1) = unat ?n + 1"
    using room unat_add_ok [of ?n 1] by simp
  show ?thesis
    using module inc val
    by (simp add: completeCrossModuleTransaction_def storage_after_def Let_def)
qed

theorem completeCrossModuleTransaction_outcomes_witness:
  "(\<exists>s'. completeCrossModuleTransaction ex_orch 6 11 = Inr (True, s'))
   \<and> tx_status (or_transactions
        (storage_after ex_orch (completeCrossModuleTransaction ex_orch 6 11)) 11) = COMPLETED
   \<and> unat (en_totalTransactions (or_entities
        (storage_after ex_orch (completeCrossModuleTransaction ex_orch 6 11)) 2)) = 1
   \<and> completeCrossModuleTransaction ex_orch 6 12 = Inl (Revert ''Invalid status'')"
  using completeCrossModuleTransaction_outcomes [of ex_orch 6 11]
    completeCrossModuleTransaction_outcomes [of ex_orch 6 12]
  by (auto simp add: ex_orch_simps)

section \<open>Reputation (claim C2)\<close>

text \<open>
  C2 fails on the code at one input: for the change \<open>- 2 ^ 255\<close>, the least \<^verbatim>\<open>int256\<close>,
  the checked negation \<^verbatim>\<open>-_change\<close> panics, although the caller holds the module role
  and the wallet is registered.
\<close>

theorem updateReputation_min_int256_panics:
  "or_roles ex_orch MODULE_ROLE 6
   \<and> en_wallet (or_entities ex_orch 2) \<noteq> 0
   \<and> sint min_int256 = - (2 ^ 255)
   \<and> updateReputation ex_orch 6 2 min_int256 = Inl Panic_Arithmetic"
  by (simp add: ex_orch_simps min_int256_def updateReputation_def checked_neg_def Let_def)

text \<open>
  At every other change the code does clamp, and it keeps every score within 1000: the
  divergence is at that one input. \<open>uint\<close> reads a word as a non-negative integer and
  \<open>sint\<close> as a signed one.
\<close>

lemma mod_shift_int:
  fixes x h :: int
  assumes "0 \<le> x" "x < 2 * h"
  shows "(x + h) mod (2 * h) - h = (if x < h then x else x - 2 * h)"
proof (cases "x < h")
  case True
  then have "(x + h) mod (2 * h) = x + h"
    using assms by (intro mod_pos_pos_trivial) auto
  then show ?thesis using True by simp
next
  case False
  have "(x + h) mod (2 * h) = (x - h + 2 * h) mod (2 * h)"
    by (simp add: algebra_simps)
  also have "\<dots> = (x - h) mod (2 * h)"
    by (rule mod_add_self2)
  also have "\<dots> = x - h"
    using False assms by (intro mod_pos_pos_trivial) auto
  finally show ?thesis using False by simp
qed

lemma neg_mod_int:
  fixes x m :: int
  assumes "0 < x" "x < m"
  shows "(- x) mod m = m - x"
proof -
  have "(- x) mod m = (m + - x) mod m"
    by (rule mod_add_self1 [symmetric])
  also have "\<dots> = (m - x) mod m"
    by simp
  also have "\<dots> = m - x"
    using assms by (intro mod_pos_pos_trivial) auto
  finally show ?thesis .
qed

lemma sint_cases:
  "sint (c::256 word) = (if uint c < 2 ^ 255 then uint c else uint c - 2 ^ 256)"
proof -
  have r: "0 \<le> uint c" "uint c < 2 * 2 ^ 255"
    using uint_lt2p [of c] by simp_all
  have "sint c = (uint c + 2 ^ 255) mod (2 * 2 ^ 255) - 2 ^ 255"
    by (simp add: sint_uint signed_take_bit_eq_take_bit_shift take_bit_eq_mod)
  also have "\<dots> = (if uint c < 2 ^ 255 then uint c else uint c - 2 * 2 ^ 255)"
    using r by (rule mod_shift_int)
  finally show ?thesis by simp
qed

lemma unat_pos_sint: "0 < sint (c::256 word) \<Longrightarrow> int (unat c) = sint c"
  using uint_lt2p [of c] by (simp add: sint_cases split: if_splits)

lemma unat_neg_sint: "sint (c::256 word) \<le> 0 \<Longrightarrow> int (unat (- c)) = - sint c"
proof -
  assume neg: "sint c \<le> 0"
  have r: "0 \<le> uint c" "uint c < 2 ^ 256"
    using uint_lt2p [of c] by simp_all
  have m: "uint (- c) = (- uint c) mod 2 ^ 256"
    by (simp add: uint_word_ariths)
  show ?thesis
  proof (cases "uint c = 0")
    case True
    then show ?thesis using neg m by (simp add: sint_cases)
  next
    case False
    then have big: "\<not> uint c < 2 ^ 255"
      using neg r by (auto simp add: sint_cases split: if_splits)
    have "0 < uint c"
      using False r(1) by linarith
    then have "(- uint c) mod 2 ^ 256 = 2 ^ 256 - uint c"
      using r(2) by (rule neg_mod_int)
    then show ?thesis using big m by (simp add: sint_cases)
  qed
qed


lemma updateReputation_clamps:
  assumes module: "or_roles s MODULE_ROLE sender"
    and registered: "en_wallet (or_entities s entity) \<noteq> 0"
    and bound: "unat (en_reputationScore (or_entities s entity)) \<le> 1000"
    and notmin: "sint change \<noteq> - (2 ^ 255)"
  shows "\<exists>score'. updateReputation s sender entity change
           = Inr (s\<lparr>or_entities := (or_entities s)(entity :=
                 (or_entities s entity)\<lparr>en_reputationScore := score'\<rparr>)\<rparr>)
         \<and> uint score'
           = max 0 (min 1000 (uint (en_reputationScore (or_entities s entity)) + sint change))"
proof -
  let ?score = "en_reputationScore (or_entities s entity)"
  define a where "a = unat ?score"
  have na: "unat ?score = a" and ua: "uint ?score = int a"
    by (simp_all add: a_def)
  have a: "a \<le> 1000"
    using bound by (simp add: na)
  show ?thesis
  proof (cases "0 < sint change")
    case True
    define b where "b = unat change"
    have nb: "unat change = b" and ub: "uint change = int b"
      by (simp_all add: b_def)
    have c: "sint change = int b"
      using unat_pos_sint [OF True] by (simp add: ub)
    have "int b < 2 ^ 255"
      using sint_lt [of change] c by simp
    then have small: "b < 2 ^ 255"
      by (simp only: of_nat_less_numeral_power_cancel_iff)
    have fits: "unat ?score + unat change < 2 ^ 256"
      using a small by (simp add: na nb)
    have add: "checked_add ?score change = Inr (?score + change)"
      using fits by (simp add: checked_add_def)
    have val: "unat (?score + change) = a + b"
      using unat_add_ok [OF fits] by (simp add: na nb)
    have uval: "uint (?score + change) = int a + int b"
      using val by (simp add: uint_nat)
    have cap: "(1000 < ?score + change) = (1000 < a + b)"
      by (simp add: word_less_nat_alt val)
    have res: "uint (if 1000 < ?score + change then 1000 else ?score + change)
        = max 0 (min 1000 (uint ?score + sint change))"
      by (simp add: cap uval ua c)
    have "updateReputation s sender entity change
        = Inr (s\<lparr>or_entities := (or_entities s)(entity := (or_entities s entity)
            \<lparr>en_reputationScore := (if 1000 < ?score + change then 1000 else ?score + change)\<rparr>)\<rparr>)"
      using module registered True add
      by (simp add: updateReputation_def Let_def)
    then show ?thesis using res by blast
  next
    case False
    define dw where "dw = - change"
    define d where "d = unat dw"
    have nd: "unat dw = d" and ud: "uint dw = int d"
      by (simp_all add: d_def)
    have neg: "checked_neg change = Inr dw"
      using notmin by (simp add: checked_neg_def dw_def)
    have c: "sint change = - int d"
      using False unat_neg_sint [of change] ud by (simp add: dw_def)
    show ?thesis
    proof (cases "?score \<le> dw")
      case True
      then have "a \<le> d"
        by (simp add: word_le_nat_alt na nd)
      then have res: "uint (0::uint256) = max 0 (min 1000 (uint ?score + sint change))"
        by (simp add: ua c)
      have "updateReputation s sender entity change
          = Inr (s\<lparr>or_entities := (or_entities s)(entity :=
                   (or_entities s entity)\<lparr>en_reputationScore := 0\<rparr>)\<rparr>)"
        using module registered False neg True
        by (simp add: updateReputation_def Let_def)
      then show ?thesis using res by blast
    next
      case gt: False
      then have lt: "d < a"
        by (simp add: word_le_nat_alt na nd)
      then have sub: "checked_sub ?score dw = Inr (?score - dw)"
        by (simp add: checked_sub_def na nd)
      have le: "unat dw \<le> unat ?score"
        using lt by (simp add: na nd)
      have val: "unat (?score - dw) = a - d"
        using unat_sub_ok [OF le] by (simp add: na nd)
      have uval: "uint (?score - dw) = int a - int d"
        using val lt by (simp add: uint_nat)
      have res: "uint (?score - dw) = max 0 (min 1000 (uint ?score + sint change))"
        using lt a by (simp add: uval ua c)
      have "updateReputation s sender entity change
          = Inr (s\<lparr>or_entities := (or_entities s)(entity :=
                   (or_entities s entity)\<lparr>en_reputationScore := ?score - dw\<rparr>)\<rparr>)"
        using module registered False neg gt sub
        by (simp add: updateReputation_def Let_def)
      then show ?thesis using res by blast
    qed
  qed
qed


lemma updateReputation_keeps_range:
  assumes ok: "updateReputation s sender entity change = Inr s'"
    and bound: "\<forall>w. unat (en_reputationScore (or_entities s w)) \<le> 1000"
  shows "unat (en_reputationScore (or_entities s' w)) \<le> 1000"
proof -
  have module: "or_roles s MODULE_ROLE sender"
    and registered: "en_wallet (or_entities s entity) \<noteq> 0"
    using ok by (auto simp add: updateReputation_def Let_def split: if_splits)
  have notmin: "sint change \<noteq> - (2 ^ 255)"
  proof
    assume "sint change = - (2 ^ 255)"
    then have "updateReputation s sender entity change = Inl Panic_Arithmetic"
      using module registered by (simp add: updateReputation_def checked_neg_def Let_def)
    then show False using ok by simp
  qed
  from updateReputation_clamps [OF module registered bound [rule_format] notmin]
  obtain score' where
    upd: "updateReputation s sender entity change
           = Inr (s\<lparr>or_entities := (or_entities s)(entity :=
                 (or_entities s entity)\<lparr>en_reputationScore := score'\<rparr>)\<rparr>)"
    and val: "uint score'
           = max 0 (min 1000 (uint (en_reputationScore (or_entities s entity)) + sint change))"
    by blast
  have "uint score' \<le> 1000"
    using val by simp
  then have "unat score' \<le> 1000"
    using unat_eq_nat_uint [of score'] by linarith
  moreover have "s' = s\<lparr>or_entities := (or_entities s)(entity :=
                 (or_entities s entity)\<lparr>en_reputationScore := score'\<rparr>)\<rparr>"
    using ok upd by simp
  ultimately show ?thesis
    using bound by simp
qed

section \<open>Visit billing (claim C7)\<close>

lemma share_le: "unat (c::uint256) * 80 < 2 ^ 256 \<Longrightarrow> unat (c * 80 div 100) \<le> unat c"
  by (simp add: unat_div unat_mul_ok)

text \<open>
  C7, as amended. \<open>recordVisit\<close> called by a provider returns the identifier and stores the
  visit with its cost. If the policy the patient points to is active and the cost is
  within its coverage limit, then, provided \<open>cost * 80\<close> fits in 256 bits, the insurance
  covers \<open>cost * 80 div 100\<close> and the patient pays the rest; otherwise the insurance covers
  nothing and the patient pays the cost.
\<close>

theorem recordVisit_split:
  assumes provider: "hc_roles s PROVIDER_ROLE sender"
    and policy: "policy = hc_insurancePolicies s (hc_patientInsurance s patient)"
    and fits: "hi_active policy \<and> cost \<le> hi_coverageLimit policy \<longrightarrow> unat cost * 80 < 2 ^ 256"
    and visitId: "visitId = H [Addr patient, Addr facility, U256 now]"
  shows "(\<exists>s'. recordVisit H s sender now patient facility diagnosis cost = Inr (visitId, s'))
    \<and> vs_cost (hc_visits (storage_after s
          (recordVisit H s sender now patient facility diagnosis cost)) visitId) = cost
    \<and> (hi_active policy \<and> cost \<le> hi_coverageLimit policy \<longrightarrow>
          unat (vs_insuranceCovered (hc_visits (storage_after s
            (recordVisit H s sender now patient facility diagnosis cost)) visitId))
            = unat cost * 80 div 100
        \<and> unat (vs_patientPayment (hc_visits (storage_after s
            (recordVisit H s sender now patient facility diagnosis cost)) visitId))
            = unat cost - unat cost * 80 div 100)
    \<and> (\<not> (hi_active policy \<and> cost \<le> hi_coverageLimit policy) \<longrightarrow>
          vs_insuranceCovered (hc_visits (storage_after s
            (recordVisit H s sender now patient facility diagnosis cost)) visitId) = 0
        \<and> vs_patientPayment (hc_visits (storage_after s
            (recordVisit H s sender now patient facility diagnosis cost)) visitId) = cost)"
proof (cases "hi_active policy \<and> cost \<le> hi_coverageLimit policy")
  case True
  then have room: "unat cost * 80 < 2 ^ 256"
    using fits by simp
  have mul: "checked_mul cost 80 = Inr (cost * 80)"
    using room by (simp add: checked_mul_def)
  have le: "unat (cost * 80 div 100) \<le> unat cost"
    using room by (rule share_le)
  have sub: "checked_sub cost (cost * 80 div 100) = Inr (cost - cost * 80 div 100)"
    using le by (simp add: checked_sub_def)
  have covered: "unat (cost * 80 div 100) = unat cost * 80 div 100"
    using room by (simp add: unat_div unat_mul_ok)
  have rest: "unat (cost - cost * 80 div 100) = unat cost - unat cost * 80 div 100"
    using unat_sub_ok [OF le] covered by simp
  have res: "recordVisit H s sender now patient facility diagnosis cost
      = Inr (visitId, s\<lparr>hc_visits := (hc_visits s)(visitId :=
          \<lparr>vs_visitId = visitId, vs_patient = patient, vs_facility = facility,
           vs_diagnosis = diagnosis, vs_cost = cost,
           vs_insuranceCovered = cost * 80 div 100,
           vs_patientPayment = cost - cost * 80 div 100, vs_timestamp = now\<rparr>)\<rparr>)"
    using True provider mul sub
    by (simp add: recordVisit_def Let_def policy [symmetric] visitId)
  show ?thesis
    using True covered rest by (simp add: res storage_after_def)
next
  case False
  then have cond: "(hi_active policy \<and> cost \<le> hi_coverageLimit policy) = False"
    by simp
  have res: "recordVisit H s sender now patient facility diagnosis cost
      = Inr (visitId, s\<lparr>hc_visits := (hc_visits s)(visitId :=
          \<lparr>vs_visitId = visitId, vs_patient = patient, vs_facility = facility,
           vs_diagnosis = diagnosis, vs_cost = cost, vs_insuranceCovered = 0,
           vs_patientPayment = cost, vs_timestamp = now\<rparr>)\<rparr>)"
    using provider
    by (simp add: recordVisit_def Let_def policy [symmetric] visitId cond)
  show ?thesis
    by (simp add: res storage_after_def cond)
qed

text \<open>
  The example of the specification: a cost of 2500 within the limit is split into 2000
  and 500; a cost of 6000 above the limit of 5000 is paid by the patient.
\<close>

lemmas ex_health_simps = ex_health_def ex_health_policy_def health_init_def
  zero_HealthInsurance_def

theorem recordVisit_split_witness:
  "(\<exists>s'. recordVisit example_hash ex_health 8 0 2 5 ''flu'' 2500
       = Inr (example_hash [Addr 2, Addr 5, U256 0], s'))
   \<and> unat (vs_insuranceCovered (hc_visits (storage_after ex_health
          (recordVisit example_hash ex_health 8 0 2 5 ''flu'' 2500))
          (example_hash [Addr 2, Addr 5, U256 0]))) = 2000
   \<and> unat (vs_patientPayment (hc_visits (storage_after ex_health
          (recordVisit example_hash ex_health 8 0 2 5 ''flu'' 2500))
          (example_hash [Addr 2, Addr 5, U256 0]))) = 500
   \<and> vs_insuranceCovered (hc_visits (storage_after ex_health
          (recordVisit example_hash ex_health 8 0 2 5 ''flu'' 6000))
          (example_hash [Addr 2, Addr 5, U256 0])) = 0
   \<and> vs_patientPayment (hc_visits (storage_after ex_health
          (recordVisit example_hash ex_health 8 0 2 5 ''flu'' 6000))
          (example_hash [Addr 2, Addr 5, U256 0])) = 6000"
  using recordVisit_split [of ex_health 8 ex_health_policy 2 2500
      "example_hash [Addr 2, Addr 5, U256 0]" example_hash 5 0 "''flu''"]
    recordVisit_split [of ex_health 8 ex_health_policy 2 6000
      "example_hash [Addr 2, Addr 5, U256 0]" example_hash 5 0 "''flu''"]
  by (auto simp add: ex_health_simps)

text \<open>
  C7 as stated fails: with an active policy whose limit covers the cost, a cost of
  \<open>2 ^ 256 - 1\<close> makes \<open>cost * 80\<close> overflow and the call panics, so nothing is recorded;
  and a caller without the provider role is refused.
\<close>

theorem recordVisit_counterexample:
  "hc_roles ex_health PROVIDER_ROLE 8
   \<and> hi_active (hc_insurancePolicies
        (ex_health\<lparr>hc_insurancePolicies := (hc_insurancePolicies ex_health)(13 :=
           ex_health_policy\<lparr>hi_coverageLimit := max_uint256\<rparr>)\<rparr>)
        (hc_patientInsurance ex_health 2))
   \<and> recordVisit example_hash
        (ex_health\<lparr>hc_insurancePolicies := (hc_insurancePolicies ex_health)(13 :=
           ex_health_policy\<lparr>hi_coverageLimit := max_uint256\<rparr>)\<rparr>)
        8 0 2 5 ''flu'' max_uint256 = Inl Panic_Arithmetic
   \<and> recordVisit example_hash ex_health 1 0 2 5 ''flu'' 2500
        = Inl AccessControlUnauthorizedAccount"
  by (simp add: ex_health_simps max_uint256_def recordVisit_def checked_mul_def Let_def)

text \<open>In general: a covered cost with \<open>cost * 80\<close> beyond 256 bits makes the call panic.\<close>

lemma recordVisit_overflow:
  assumes provider: "hc_roles s PROVIDER_ROLE sender"
    and policy: "policy = hc_insurancePolicies s (hc_patientInsurance s patient)"
    and covered: "hi_active policy" "cost \<le> hi_coverageLimit policy"
    and large: "\<not> unat cost * 80 < 2 ^ 256"
  shows "recordVisit H s sender now patient facility diagnosis cost = Inl Panic_Arithmetic"
proof -
  have "checked_mul cost 80 = Inl Panic_Arithmetic"
    using large by (simp add: checked_mul_def)
  then show ?thesis
    using provider covered
    by (simp add: recordVisit_def Let_def policy [symmetric])
qed

section \<open>Award and retire (claim C6)\<close>

text \<open>
  C6. Whenever \<open>awardCarbonCredits\<close> returns a credit identifier for an entity and an
  amount, \<open>retireCredits\<close> of that identifier, called by the entity, succeeds and leaves
  the entity's carbon balance at its value before the award, and a second
  \<open>retireCredits\<close> of the same identifier fails with ``Already retired''.
\<close>

theorem award_retire_round_trip:
  assumes award: "awardCarbonCredits H s sender now entity amount projectType = Inr (creditId, s1)"
  shows "\<exists>s2. retireCredits s1 entity creditId = Inr s2
    \<and> su_entityCarbonBalance s2 entity = su_entityCarbonBalance s entity
    \<and> retireCredits s2 entity creditId = Inl (Revert ''Already retired'')"
proof -
  let ?b = "su_entityCarbonBalance s entity"
  let ?id = "H [Addr entity, U256 amount, U256 now]"
  from award have ver: "su_roles s VERIFIER_ROLE sender"
    by (auto simp add: awardCarbonCredits_def split: if_splits)
  from award ver obtain vintage where
    vintage: "checked_add (now div 31536000) 1970 = Inr vintage"
    by (auto simp add: awardCarbonCredits_def Let_def split: sum.splits)
  from award ver vintage have fits: "unat ?b + unat amount < 2 ^ 256"
    by (auto simp add: awardCarbonCredits_def Let_def checked_add_def split: if_splits)
  then have add: "checked_add ?b amount = Inr (?b + amount)"
    by (simp add: checked_add_def)
  let ?credit = "\<lparr>cc_creditId = ?id, cc_entity = entity, cc_amount = amount,
      cc_vintage = vintage, cc_projectType = projectType, cc_verified = True,
      cc_retired = False, cc_timestamp = now\<rparr>"
  have "awardCarbonCredits H s sender now entity amount projectType
      = Inr (?id, s\<lparr>su_carbonCredits := (su_carbonCredits s)(?id := ?credit),
          su_entityCarbonBalance := (su_entityCarbonBalance s)(entity := ?b + amount)\<rparr>)"
    using ver vintage add by (simp add: awardCarbonCredits_def Let_def)
  with award have cid: "creditId = ?id"
    and s1: "s1 = s\<lparr>su_carbonCredits := (su_carbonCredits s)(?id := ?credit),
      su_entityCarbonBalance := (su_entityCarbonBalance s)(entity := ?b + amount)\<rparr>"
    by auto
  have enough: "unat amount \<le> unat (?b + amount)"
    using unat_add_ok [OF fits] by simp
  then have sub: "checked_sub (?b + amount) amount = Inr ?b"
    by (simp add: checked_sub_def)
  let ?s2 = "s\<lparr>su_carbonCredits := (su_carbonCredits s)(?id := ?credit\<lparr>cc_retired := True\<rparr>),
      su_entityCarbonBalance := (su_entityCarbonBalance s)(entity := ?b)\<rparr>"
  have retire: "retireCredits s1 entity creditId = Inr ?s2"
    using sub by (simp add: retireCredits_def Let_def s1 cid)
  have again: "retireCredits ?s2 entity creditId = Inl (Revert ''Already retired'')"
    by (simp add: retireCredits_def Let_def cid)
  have same: "su_entityCarbonBalance ?s2 entity = ?b"
    by simp
  show ?thesis using retire again same by blast
qed

text \<open>The award of the specification's example (1000 tons, ``organic'') and its retirement.\<close>

lemmas ex_sust_simps = ex_sust_awarded_def ex_sust_def ex_credit_def sust_init_def
  zero_CarbonCredit_def

lemma ex_award:
  "awardCarbonCredits example_hash ex_sust 4 0 2 1000 ''organic''
     = Inr (example_hash [Addr 2, U256 1000, U256 0], ex_sust_awarded)"
  by (simp add: awardCarbonCredits_def checked_add_def Let_def ex_sust_simps)

theorem award_retire_round_trip_witness:
  "awardCarbonCredits example_hash ex_sust 4 0 2 1000 ''organic''
     = Inr (example_hash [Addr 2, U256 1000, U256 0], ex_sust_awarded)
   \<and> (\<exists>s2. retireCredits ex_sust_awarded 2 (example_hash [Addr 2, U256 1000, U256 0]) = Inr s2
         \<and> su_entityCarbonBalance s2 2 = su_entityCarbonBalance ex_sust 2
         \<and> retireCredits s2 2 (example_hash [Addr 2, U256 1000, U256 0])
             = Inl (Revert ''Already retired''))"
  using ex_award award_retire_round_trip [OF ex_award] by blast

section \<open>Identifiers (claim C3)\<close>












section \<open>Balances and unretired credits (claim C10)\<close>

lemma unretired_total_balance [simp]:
  "unretired_total (s\<lparr>su_entityCarbonBalance := b\<rparr>) e = unretired_total s e"
  by (simp add: unretired_total_def)

lemma unretired_total_store:
  "unretired_total (s\<lparr>su_carbonCredits := (su_carbonCredits s)(creditId := c)\<rparr>) e
     + unretired_amount (su_carbonCredits s creditId) e
   = unretired_total s e + unretired_amount c e"
proof -
  let ?f = "\<lambda>k. unretired_amount (su_carbonCredits s k) e"
  let ?g = "\<lambda>k. unretired_amount (((su_carbonCredits s)(creditId := c)) k) e"
  have rest: "sum ?g (UNIV - {creditId}) = sum ?f (UNIV - {creditId})"
    by (rule sum.cong) simp_all
  have "sum ?g UNIV = ?g creditId + sum ?g (UNIV - {creditId})"
    by (rule sum.remove) simp_all
  moreover have "sum ?f UNIV = ?f creditId + sum ?f (UNIV - {creditId})"
    by (rule sum.remove) simp_all
  ultimately show ?thesis
    using rest by (simp add: unretired_total_def)
qed

lemma unretired_amount_le_total:
  "unretired_amount (su_carbonCredits s creditId) e \<le> unretired_total s e"
proof -
  let ?f = "\<lambda>k. unretired_amount (su_carbonCredits s k) e"
  have "sum ?f UNIV = ?f creditId + sum ?f (UNIV - {creditId})"
    by (rule sum.remove) simp_all
  then show ?thesis by (simp add: unretired_total_def)
qed

lemma unretired_total_init [simp]:
  "unretired_total ((sust_init deployer nft)\<lparr>su_roles := roles\<rparr>) e = 0"
  by (simp add: unretired_total_def unretired_amount_def sust_init_def zero_CarbonCredit_def)

text \<open>What a successful award and a successful retirement do to the two quantities.\<close>

lemma award_effect:
  assumes "awardCarbonCredits H s sender now entity amount projectType = Inr (creditId, s')"
  shows "creditId = H [Addr entity, U256 amount, U256 now]
    \<and> unretired_total s' e + unretired_amount (su_carbonCredits s creditId) e
        = unretired_total s e + (if e = entity then unat amount else 0)
    \<and> unat (su_entityCarbonBalance s' e)
        = unat (su_entityCarbonBalance s e) + (if e = entity then unat amount else 0)"
proof -
  let ?id = "H [Addr entity, U256 amount, U256 now]"
  let ?b = "su_entityCarbonBalance s entity"
  from assms have ver: "su_roles s VERIFIER_ROLE sender"
    by (auto simp add: awardCarbonCredits_def split: if_splits)
  from assms ver obtain vintage where
    vintage: "checked_add (now div 31536000) 1970 = Inr vintage"
    by (auto simp add: awardCarbonCredits_def Let_def split: sum.splits)
  from assms ver vintage have fits: "unat ?b + unat amount < 2 ^ 256"
    by (auto simp add: awardCarbonCredits_def Let_def checked_add_def split: if_splits)
  then have add: "checked_add ?b amount = Inr (?b + amount)"
    by (simp add: checked_add_def)
  let ?credit = "\<lparr>cc_creditId = ?id, cc_entity = entity, cc_amount = amount,
      cc_vintage = vintage, cc_projectType = projectType, cc_verified = True,
      cc_retired = False, cc_timestamp = now\<rparr>"
  have "awardCarbonCredits H s sender now entity amount projectType
      = Inr (?id, s\<lparr>su_carbonCredits := (su_carbonCredits s)(?id := ?credit),
          su_entityCarbonBalance := (su_entityCarbonBalance s)(entity := ?b + amount)\<rparr>)"
    using ver vintage add by (simp add: awardCarbonCredits_def Let_def)
  with assms have cid: "creditId = ?id"
    and s': "s' = (s\<lparr>su_carbonCredits := (su_carbonCredits s)(?id := ?credit)\<rparr>)
      \<lparr>su_entityCarbonBalance := (su_entityCarbonBalance s)(entity := ?b + amount)\<rparr>"
    by auto
  have total: "unretired_total s' e + unretired_amount (su_carbonCredits s ?id) e
      = unretired_total s e + unretired_amount ?credit e"
    unfolding s' unretired_total_balance by (rule unretired_total_store)
  have new: "unretired_amount ?credit e = (if e = entity then unat amount else 0)"
    by (auto simp add: unretired_amount_def)
  have bal: "unat (su_entityCarbonBalance s' e)
      = unat (su_entityCarbonBalance s e) + (if e = entity then unat amount else 0)"
    using unat_add_ok [OF fits] by (simp add: s')
  show ?thesis using cid total new bal by simp
qed

lemma retire_effect:
  assumes "retireCredits s sender creditId = Inr s'"
  shows "unretired_total s' e + (if e = sender then unat (cc_amount (su_carbonCredits s creditId)) else 0)
        = unretired_total s e
    \<and> unat (su_entityCarbonBalance s' e)
        + (if e = sender then unat (cc_amount (su_carbonCredits s creditId)) else 0)
        = unat (su_entityCarbonBalance s e)"
proof -
  let ?c = "su_carbonCredits s creditId"
  let ?b = "su_entityCarbonBalance s sender"
  from assms have owner: "cc_entity ?c = sender" and live: "\<not> cc_retired ?c"
    by (auto simp add: retireCredits_def Let_def split: if_splits)
  from assms owner live have enough: "unat (cc_amount ?c) \<le> unat ?b"
    by (auto simp add: retireCredits_def Let_def checked_sub_def split: if_splits)
  then have sub: "checked_sub ?b (cc_amount ?c) = Inr (?b - cc_amount ?c)"
    by (simp add: checked_sub_def)
  have "retireCredits s sender creditId
      = Inr ((s\<lparr>su_carbonCredits := (su_carbonCredits s)(creditId := ?c\<lparr>cc_retired := True\<rparr>)\<rparr>)
          \<lparr>su_entityCarbonBalance := (su_entityCarbonBalance s)(sender := ?b - cc_amount ?c)\<rparr>)"
    using owner live sub by (simp add: retireCredits_def Let_def)
  with assms have s': "s' = (s\<lparr>su_carbonCredits := (su_carbonCredits s)(creditId :=
        ?c\<lparr>cc_retired := True\<rparr>)\<rparr>)
      \<lparr>su_entityCarbonBalance := (su_entityCarbonBalance s)(sender := ?b - cc_amount ?c)\<rparr>"
    by simp
  have "unretired_total s' e + unretired_amount ?c e
      = unretired_total s e + unretired_amount (?c\<lparr>cc_retired := True\<rparr>) e"
    unfolding s' unretired_total_balance by (rule unretired_total_store)
  moreover have "unretired_amount (?c\<lparr>cc_retired := True\<rparr>) e = 0"
    by (simp add: unretired_amount_def)
  moreover have "unretired_amount ?c e = (if e = sender then unat (cc_amount ?c) else 0)"
    using owner live by (auto simp add: unretired_amount_def)
  ultimately have total: "unretired_total s' e + (if e = sender then unat (cc_amount ?c) else 0)
      = unretired_total s e"
    by simp
  have bal: "unat (su_entityCarbonBalance s' e) + (if e = sender then unat (cc_amount ?c) else 0)
      = unat (su_entityCarbonBalance s e)"
    using unat_sub_ok [OF enough] enough by (simp add: s')
  show ?thesis using total bal by simp
qed


lemma sust_step_covers:
  assumes inv: "\<forall>e. unretired_total s e \<le> unat (su_entityCarbonBalance s e)"
  shows "unretired_total (sust_step H s c) e \<le> unat (su_entityCarbonBalance (sust_step H s c) e)"
proof (cases c)
  case (Award sender now entity amount projectType)
  show ?thesis
  proof (cases "awardCarbonCredits H s sender now entity amount projectType")
    case (Inl err)
    then show ?thesis using inv Award by simp
  next
    case (Inr r)
    obtain creditId s' where r: "r = (creditId, s')" by (cases r)
    from award_effect [OF Inr [unfolded r], of e] inv [rule_format, of e]
    have "unretired_total s' e \<le> unat (su_entityCarbonBalance s' e)"
      by linarith
    then show ?thesis using Award Inr r by simp
  qed
next
  case (Retire sender creditId)
  show ?thesis
  proof (cases "retireCredits s sender creditId")
    case (Inl err)
    then show ?thesis using inv Retire by simp
  next
    case (Inr s')
    from retire_effect [OF Inr, of e] inv [rule_format, of e]
    have "unretired_total s' e \<le> unat (su_entityCarbonBalance s' e)"
      by linarith
    then show ?thesis using Retire Inr by simp
  qed
qed

lemma sust_step_exact:
  assumes inv: "\<forall>e. unretired_total s e = unat (su_entityCarbonBalance s e)"
    and fresh: "fresh_call H s c"
  shows "unretired_total (sust_step H s c) e = unat (su_entityCarbonBalance (sust_step H s c) e)"
proof (cases c)
  case (Award sender now entity amount projectType)
  show ?thesis
  proof (cases "awardCarbonCredits H s sender now entity amount projectType")
    case (Inl err)
    then show ?thesis using inv Award by simp
  next
    case (Inr r)
    obtain creditId s' where r: "r = (creditId, s')" by (cases r)
    note eff = award_effect [OF Inr [unfolded r], of e]
    have "su_carbonCredits s creditId = zero_CarbonCredit"
      using fresh Award eff by simp
    then have "unretired_amount (su_carbonCredits s creditId) e = 0"
      by (simp add: unretired_amount_def zero_CarbonCredit_def)
    with eff inv [rule_format, of e]
    have "unretired_total s' e = unat (su_entityCarbonBalance s' e)"
      by linarith
    then show ?thesis using Award Inr r by simp
  qed
next
  case (Retire sender creditId)
  show ?thesis
  proof (cases "retireCredits s sender creditId")
    case (Inl err)
    then show ?thesis using inv Retire by simp
  next
    case (Inr s')
    from retire_effect [OF Inr, of e] inv [rule_format, of e]
    have "unretired_total s' e = unat (su_entityCarbonBalance s' e)"
      by linarith
    then show ?thesis using Retire Inr by simp
  qed
qed

lemma sust_run_covers:
  "\<forall>e. unretired_total s e \<le> unat (su_entityCarbonBalance s e) \<Longrightarrow>
   unretired_total (sust_run H s calls) e \<le> unat (su_entityCarbonBalance (sust_run H s calls) e)"
proof (induction calls arbitrary: s e)
  case Nil
  then show ?case by (simp add: sust_run_def)
next
  case (Cons c cs)
  have "\<forall>e. unretired_total (sust_step H s c) e
      \<le> unat (su_entityCarbonBalance (sust_step H s c) e)"
    using sust_step_covers [OF Cons.prems] by blast
  from Cons.IH [OF this] show ?case by (simp add: sust_run_def)
qed

lemma sust_run_exact:
  "\<forall>e. unretired_total s e = unat (su_entityCarbonBalance s e) \<Longrightarrow> fresh_run H s calls \<Longrightarrow>
   unretired_total (sust_run H s calls) e = unat (su_entityCarbonBalance (sust_run H s calls) e)"
proof (induction calls arbitrary: s e)
  case Nil
  then show ?case by (simp add: sust_run_def)
next
  case (Cons c cs)
  from Cons.prems(2) have fc: "fresh_call H s c" and fr: "fresh_run H (sust_step H s c) cs"
    by simp_all
  have "\<forall>e. unretired_total (sust_step H s c) e
      = unat (su_entityCarbonBalance (sust_step H s c) e)"
    using sust_step_exact [OF Cons.prems(1) fc] by blast
  from Cons.IH [OF this fr] show ?case by (simp add: sust_run_def)
qed

lemma retire_succeeds:
  assumes inv: "unretired_total s sender \<le> unat (su_entityCarbonBalance s sender)"
    and owner: "cc_entity (su_carbonCredits s creditId) = sender"
    and live: "\<not> cc_retired (su_carbonCredits s creditId)"
  shows "\<exists>s'. retireCredits s sender creditId = Inr s'"
proof -
  have "unretired_amount (su_carbonCredits s creditId) sender
      = unat (cc_amount (su_carbonCredits s creditId))"
    using owner live by (simp add: unretired_amount_def)
  then have "unat (cc_amount (su_carbonCredits s creditId)) \<le> unat (su_entityCarbonBalance s sender)"
    using unretired_amount_le_total [of s creditId sender] inv by linarith
  then show ?thesis
    using owner live by (simp add: retireCredits_def Let_def checked_sub_def)
qed

text \<open>
  C10, as amended. After any sequence of \<open>awardCarbonCredits\<close> and \<open>retireCredits\<close>
  calls on a newly deployed contract, whoever holds the roles, the carbon balance of every
  entity is at least the sum of the amounts of its unretired credits, and equal to it if
  every award of the sequence was stored under an identifier that held no credit yet;
  consequently \<open>retireCredits\<close>, called by the owner of an unretired credit, never
  underflows: it succeeds.
\<close>

theorem balance_covers_unretired:
  assumes run: "s = sust_run H ((sust_init deployer nft)\<lparr>su_roles := roles\<rparr>) calls"
  shows "unretired_total s e \<le> unat (su_entityCarbonBalance s e)
    \<and> (fresh_run H ((sust_init deployer nft)\<lparr>su_roles := roles\<rparr>) calls \<longrightarrow>
          unretired_total s e = unat (su_entityCarbonBalance s e))
    \<and> (cc_entity (su_carbonCredits s creditId) = sender
          \<and> \<not> cc_retired (su_carbonCredits s creditId) \<longrightarrow>
          (\<exists>s'. retireCredits s sender creditId = Inr s'))"
proof -
  let ?s0 = "(sust_init deployer nft)\<lparr>su_roles := roles\<rparr>"
  have zero: "su_entityCarbonBalance ?s0 e = 0" for e
    by (simp add: sust_init_def)
  have eq0: "\<forall>e. unretired_total ?s0 e = unat (su_entityCarbonBalance ?s0 e)"
    unfolding zero by simp
  then have le0: "\<forall>e. unretired_total ?s0 e \<le> unat (su_entityCarbonBalance ?s0 e)"
    by simp
  have le: "unretired_total s e \<le> unat (su_entityCarbonBalance s e)" for e
    unfolding run using le0 by (rule sust_run_covers)
  have eq: "unretired_total s e = unat (su_entityCarbonBalance s e)"
    if "fresh_run H ?s0 calls"
    unfolding run using eq0 that by (rule sust_run_exact)
  show ?thesis
    using le [of e] eq retire_succeeds [OF le [of sender]] by blast
qed

text \<open>
  After one award to entity 2 the balance and the sum agree and the credit can be retired.
\<close>

lemma unretired_total_single:
  assumes "su_carbonCredits s = (\<lambda>_. zero_CarbonCredit)(creditId := c)"
  shows "unretired_total s e = unretired_amount c e"
proof -
  have "unretired_total s e
      = (\<Sum>k\<in>UNIV. if k = creditId then unretired_amount c e else 0)"
    unfolding unretired_total_def assms
    by (rule sum.cong) (simp_all add: unretired_amount_def zero_CarbonCredit_def)
  then show ?thesis by simp
qed

lemma ex_run_once:
  "sust_run example_hash ex_sust [Award 4 0 2 1000 ''organic''] = ex_sust_awarded"
  by (simp add: sust_run_def ex_award)

theorem balance_covers_unretired_witness:
  "fresh_run example_hash ex_sust [Award 4 0 2 1000 ''organic'']
   \<and> unretired_total ex_sust_awarded 2 = unat (su_entityCarbonBalance ex_sust_awarded 2)
   \<and> cc_entity (su_carbonCredits ex_sust_awarded (example_hash [Addr 2, U256 1000, U256 0])) = 2
   \<and> \<not> cc_retired (su_carbonCredits ex_sust_awarded (example_hash [Addr 2, U256 1000, U256 0]))
   \<and> (\<exists>s'. retireCredits ex_sust_awarded 2 (example_hash [Addr 2, U256 1000, U256 0]) = Inr s')"
proof -
  have run: "ex_sust_awarded = sust_run example_hash
      ((sust_init 1 0)\<lparr>su_roles := (\<lambda>r a. r = VERIFIER_ROLE \<and> a = 4)\<rparr>)
      [Award 4 0 2 1000 ''organic'']"
    using ex_run_once by (simp add: ex_sust_def)
  have fresh: "fresh_run example_hash ex_sust [Award 4 0 2 1000 ''organic'']"
    by (simp add: ex_sust_def sust_init_def)
  have owner: "cc_entity (su_carbonCredits ex_sust_awarded
        (example_hash [Addr 2, U256 1000, U256 0])) = 2"
    and live: "\<not> cc_retired (su_carbonCredits ex_sust_awarded
        (example_hash [Addr 2, U256 1000, U256 0]))"
    by (simp_all add: ex_sust_awarded_def ex_credit_def)
  show ?thesis
    using balance_covers_unretired [OF run, of 2 "example_hash [Addr 2, U256 1000, U256 0]" 2]
      fresh owner live
    by (simp add: ex_sust_def)
qed

text \<open>
  C10 as stated fails: the same award made twice at the same timestamp is stored under one
  identifier, so entity 2 owns one unretired credit of 1000 while its balance is 2000.
\<close>

theorem balance_exceeds_unretired_counterexample:
  "sust_run example_hash ex_sust [Award 4 0 2 1000 ''organic'', Award 4 0 2 1000 ''organic'']
     = ex_sust_awarded\<lparr>su_entityCarbonBalance := (\<lambda>_. 0)(2 := 2000)\<rparr>
   \<and> unretired_total (ex_sust_awarded\<lparr>su_entityCarbonBalance := (\<lambda>_. 0)(2 := 2000)\<rparr>) 2 = 1000
   \<and> unat (su_entityCarbonBalance
        (ex_sust_awarded\<lparr>su_entityCarbonBalance := (\<lambda>_. 0)(2 := 2000)\<rparr>) 2) = 2000"
proof -
  have again: "awardCarbonCredits example_hash ex_sust_awarded 4 0 2 1000 ''organic''
      = Inr (example_hash [Addr 2, U256 1000, U256 0],
          ex_sust_awarded\<lparr>su_entityCarbonBalance := (\<lambda>_. 0)(2 := 2000)\<rparr>)"
    by (simp add: awardCarbonCredits_def checked_add_def Let_def ex_sust_simps)
  have run: "sust_run example_hash ex_sust
      [Award 4 0 2 1000 ''organic'', Award 4 0 2 1000 ''organic'']
      = ex_sust_awarded\<lparr>su_entityCarbonBalance := (\<lambda>_. 0)(2 := 2000)\<rparr>"
    by (simp add: sust_run_def ex_award again)
  have "unretired_total ex_sust_awarded 2 = unretired_amount ex_credit 2"
    by (rule unretired_total_single) (simp add: ex_sust_awarded_def)
  then have total: "unretired_total
      (ex_sust_awarded\<lparr>su_entityCarbonBalance := (\<lambda>_. 0)(2 := 2000)\<rparr>) 2 = 1000"
    by (simp add: unretired_amount_def ex_credit_def)
  show ?thesis using run total by simp
qed

end
